theory Spec2Isabelle
  imports Main
begin

section \<open>Data model\<close>

text \<open>
  The records follow \<^verbatim>\<open>src/types/index.ts\<close>. Identifiers (user, room and socket
  ids) are strings, as in the source. Time stamps are left out of every payload:
  no property below depends on the clock.
\<close>

record AuthPayload =
  userId :: string
  username :: string
  email :: string

record IUser =
  user_id :: string
  user_username :: string
  user_email :: string

record IRoom =
  name :: string
  isPrivate :: bool
  owner :: string
  members :: "string list"

record CreateMessageDto =
  dto_content :: string
  dto_room :: string
  dto_messageType :: "string option"

record IMessage =
  message_id :: nat
  content :: string
  sender :: string
  room :: string
  messageType :: string

text \<open>
  \<^verbatim>\<open>interface AuthenticatedSocket extends Socket { userId?: string; username?: string }\<close>
  with the two parts of the handshake that the authentication middleware reads.
\<close>

record Handshake =
  auth_token :: "string option"
  authorization :: "string option"

record AuthenticatedSocket =
  socket_id :: string
  handshake :: Handshake
  socket_userId :: "string option"
  socket_username :: "string option"

text \<open>The data of a \<^verbatim>\<open>send_message\<close> event.\<close>

record SendData =
  data_roomId :: string
  data_content :: string
  data_messageType :: "string option"

subsection \<open>Errors\<close>

text \<open>
  The errors of the \<^verbatim>\<open>jsonwebtoken\<close> library: \<^verbatim>\<open>TokenExpiredError\<close> and
  \<^verbatim>\<open>NotBeforeError\<close> are subclasses of \<^verbatim>\<open>JsonWebTokenError\<close>.
\<close>

datatype jwt_error = JsonWebTokenError | TokenExpiredError | NotBeforeError

datatype error =
    Error string
  | Jwt jwt_error
  | ValidationError
  | CastError
  | MongoError
  | RedisError
  | AmqpError

fun instanceof_JsonWebTokenError :: "error \<Rightarrow> bool" where
  "instanceof_JsonWebTokenError (Jwt _) = True"
| "instanceof_JsonWebTokenError _ = False"

subsection \<open>Configuration and faults of the collaborators\<close>

text \<open>
  \<^verbatim>\<open>process.env.JWT_SECRET\<close>, which may be undefined; the library function
  \<^verbatim>\<open>jwt.verify(token, secret)\<close>, which either returns the decoded payload or throws
  one of the library's errors; and the library predicate \<^verbatim>\<open>isMongoId\<close> of the
  request validators.
\<close>

record config =
  JWT_SECRET :: "string option"
  jwt_verify :: "string \<Rightarrow> string option \<Rightarrow> jwt_error + AuthPayload"
  isMongoId :: "string \<Rightarrow> bool"

text \<open>
  Every call into the document store, the key-value broker and the queue can throw.
  A handler is run under a \<open>faults\<close> record that says which of its calls throw and
  what: \<open>find_throws\<close> for \<^verbatim>\<open>Model.findById\<close> (a lost connection, or the cast error
  of a malformed id), \<open>save_throws\<close> for a \<^verbatim>\<open>save()\<close> that the store rejects,
  \<open>populate_throws\<close> for \<^verbatim>\<open>populate\<close>, \<open>setEx_throws\<close> and \<open>publish_throws\<close> for the
  two Redis calls and \<open>sendToQueue_throws q\<close> for \<^verbatim>\<open>channel.sendToQueue\<close> on queue
  \<open>q\<close>. \<open>None\<close>: the call returns.
\<close>

record faults =
  find_throws :: "error option"
  save_throws :: "error option"
  populate_throws :: "error option"
  setEx_throws :: "error option"
  publish_throws :: "error option"
  sendToQueue_throws :: "string \<Rightarrow> error option"

subsection \<open>Observable effects\<close>

datatype payload =
    MessagePayload IMessage
  | ChatPayload string string string "string option" "string option"
  | QueuePayload string string string "string option"
  | MessageSentPayload nat string string string
  | UserPayload "string option" "string option"
  | TypingPayload "string option" "string option" bool
  | StatusPayload string bool
  | ErrorPayload string

text \<open>
  \<open>Emit rs ev p\<close>: event \<open>ev\<close> with data \<open>p\<close> is delivered to exactly the connections
  \<open>rs\<close>. The writes to the document store are part of the trace, so that the order of
  a write and a broadcast can be read off it.
\<close>

datatype effect =
    DbSaveMessage IMessage
  | DbSaveRoom string IRoom
  | Emit "string set" string payload
  | RedisSetEx string nat string
  | RedisPublish string payload
  | SendToQueue string payload
  | ConsoleError string

subsection \<open>The state of the process and of its store\<close>

text \<open>
  \<open>users\<close>, \<open>rooms\<close>, \<open>messages\<close>: the collections of the document store.
  \<open>io\<close>: \<^verbatim>\<open>SocketService.io\<close> is not null. \<open>channel\<close>: \<^verbatim>\<open>RabbitMQClient.channel\<close>
  is not null. \<open>sockets\<close>: the connections whose \<^verbatim>\<open>connection\<close> handler has run and
  that have not disconnected. \<open>adapter\<close>: the broadcast groups of the socket
  framework, room id to connection ids. \<open>connectedUsers\<close>: the map of
  \<^verbatim>\<open>SocketService\<close>, user id to socket id.
\<close>

record world =
  users :: "string \<rightharpoonup> IUser"
  rooms :: "string \<rightharpoonup> IRoom"
  messages :: "IMessage list"
  io :: bool
  channel :: bool
  sockets :: "string \<rightharpoonup> AuthenticatedSocket"
  adapter :: "string \<Rightarrow> string set"
  connectedUsers :: "string \<rightharpoonup> string"
  trace :: "effect list"

definition emit_effect :: "effect \<Rightarrow> world \<Rightarrow> world" where
  "emit_effect e s = s\<lparr>trace := trace s @ [e]\<rparr>"

section \<open>JavaScript helpers\<close>

text \<open>Truthiness of an optional string: \<^verbatim>\<open>undefined\<close> and \<^verbatim>\<open>''\<close> are falsy.\<close>

fun truthy :: "string option \<Rightarrow> bool" where
  "truthy None = False"
| "truthy (Some s) = (s \<noteq> [])"

text \<open>\<^verbatim>\<open>str.split(c)\<close> for a one-character separator.\<close>

fun split_on :: "char \<Rightarrow> string \<Rightarrow> string list" where
  "split_on c [] = [[]]"
| "split_on c (x # xs) =
     (if x = c then [] # split_on c xs
      else (case split_on c xs of
              [] \<Rightarrow> [[x]]
            | w # ws \<Rightarrow> (x # w) # ws))"

text \<open>\<^verbatim>\<open>xs[i]\<close>: \<^verbatim>\<open>undefined\<close> out of range.\<close>

fun at_index :: "'a list \<Rightarrow> nat \<Rightarrow> 'a option" where
  "at_index [] i = None"
| "at_index (x # xs) 0 = Some x"
| "at_index (x # xs) (Suc i) = at_index xs i"

text \<open>\<^verbatim>\<open>header.split(' ')[1]\<close>\<close>

definition bearer :: "string \<Rightarrow> string option" where
  "bearer h = at_index (split_on CHR '' '' h) 1"

section \<open>Queue and pub/sub clients\<close>

text \<open>\<^verbatim>\<open>RabbitMQClient.publishToQueue\<close>\<close>

definition publishToQueue :: "faults \<Rightarrow> world \<Rightarrow> string \<Rightarrow> payload \<Rightarrow> error + world" where
  "publishToQueue f s queue message =
     (if \<not> channel s then Inl (Error ''RabbitMQ channel not initialized'')
      else (case sendToQueue_throws f queue of
              Some e \<Rightarrow> Inl e
            | None \<Rightarrow> Inr (emit_effect (SendToQueue queue message) s)))"

text \<open>\<^verbatim>\<open>RedisClient.publish\<close>\<close>

definition redis_publish :: "faults \<Rightarrow> world \<Rightarrow> string \<Rightarrow> payload \<Rightarrow> error + world" where
  "redis_publish f s chan message =
     (case publish_throws f of
        Some e \<Rightarrow> Inl e
      | None \<Rightarrow> Inr (emit_effect (RedisPublish chan message) s))"

text \<open>\<^verbatim>\<open>client.setEx(key, seconds, value)\<close>\<close>

definition redis_setEx :: "faults \<Rightarrow> world \<Rightarrow> string \<Rightarrow> nat \<Rightarrow> string \<Rightarrow> error + world" where
  "redis_setEx f s key seconds v =
     (case setEx_throws f of
        Some e \<Rightarrow> Inl e
      | None \<Rightarrow> Inr (emit_effect (RedisSetEx key seconds v) s))"

section \<open>The socket service\<close>

text \<open>
  \<^verbatim>\<open>SocketService.updateUserOnlineStatus\<close>: both Redis calls sit in one \<^verbatim>\<open>try\<close>
  block whose \<^verbatim>\<open>catch\<close> logs and returns.
\<close>

definition updateUserOnlineStatus :: "faults \<Rightarrow> world \<Rightarrow> string \<Rightarrow> bool \<Rightarrow> world" where
  "updateUserOnlineStatus f s uid isOnline =
     (case redis_setEx f s (''user:'' @ uid @ '':online'') 300 (if isOnline then ''1'' else ''0'') of
        Inl e \<Rightarrow> emit_effect (ConsoleError ''Error updating user online status:'') s
      | Inr s1 \<Rightarrow>
          (case redis_publish f s1 ''user_status_change'' (StatusPayload uid isOnline) of
             Inl e \<Rightarrow> emit_effect (ConsoleError ''Error updating user online status:'') s1
           | Inr s2 \<Rightarrow> s2))"

text \<open>
  The authentication middleware of \<^verbatim>\<open>SocketService.setupMiddleware\<close>. \<open>Inl\<close> is
  \<^verbatim>\<open>next(new Error(...))\<close>, which refuses the connection; \<open>Inr\<close> is \<^verbatim>\<open>next()\<close> with
  the identity attached to the socket. Whatever \<^verbatim>\<open>jwt.verify\<close> throws, the \<^verbatim>\<open>catch\<close>
  turns it into a refusal.
\<close>

definition handshake_token :: "Handshake \<Rightarrow> string option" where
  "handshake_token h =
     (if truthy (auth_token h) then auth_token h
      else (case authorization h of None \<Rightarrow> None | Some a \<Rightarrow> bearer a))"

definition socket_middleware :: "config \<Rightarrow> AuthenticatedSocket \<Rightarrow> error + AuthenticatedSocket" where
  "socket_middleware cfg socket =
     (let token = handshake_token (handshake socket) in
      if \<not> truthy token then Inl (Error ''Authentication token required'')
      else (case jwt_verify cfg (the token) (JWT_SECRET cfg) of
              Inl e \<Rightarrow> Inl (Error ''Invalid authentication token'')
            | Inr decoded \<Rightarrow>
                Inr (socket\<lparr>socket_userId := Some (userId decoded),
                            socket_username := Some (username decoded)\<rparr>)))"

text \<open>
  The body of the \<^verbatim>\<open>connection\<close> handler up to the registration of the event
  handlers. \<^verbatim>\<open>joinUserRooms\<close> only logs.
\<close>

definition connection_handler :: "faults \<Rightarrow> world \<Rightarrow> AuthenticatedSocket \<Rightarrow> world" where
  "connection_handler f s socket =
     (let s1 = (if truthy (socket_userId socket)
                then updateUserOnlineStatus f
                       (s\<lparr>connectedUsers := (connectedUsers s)(the (socket_userId socket) \<mapsto> socket_id socket)\<rparr>)
                       (the (socket_userId socket)) True
                else s)
      in s1\<lparr>sockets := (sockets s1)(socket_id socket \<mapsto> socket)\<rparr>)"

text \<open>
  \<^verbatim>\<open>socket.to(roomId)\<close>: a broadcast to the group \<open>roomId\<close> that excepts the group
  named by the socket's own id. The framework delivers to the members of the first
  group that are not members of the second. The socket is in the group of its own id
  from its handshake on, but \<^verbatim>\<open>join_room\<close> and \<^verbatim>\<open>leave_room\<close> take any string of the
  client, so that group can lose the socket and gain others.
\<close>

definition socket_to :: "world \<Rightarrow> AuthenticatedSocket \<Rightarrow> string \<Rightarrow> string set" where
  "socket_to s socket roomId = adapter s roomId - adapter s (socket_id socket)"

text \<open>The \<^verbatim>\<open>join_room\<close> handler.\<close>

definition join_room :: "world \<Rightarrow> AuthenticatedSocket \<Rightarrow> string \<Rightarrow> world" where
  "join_room s socket roomId =
     (let s1 = s\<lparr>adapter := (adapter s)(roomId := insert (socket_id socket) (adapter s roomId))\<rparr>
      in emit_effect (Emit (socket_to s1 socket roomId) ''user_joined''
                        (UserPayload (socket_userId socket) (socket_username socket))) s1)"

text \<open>The \<^verbatim>\<open>leave_room\<close> handler.\<close>

definition leave_room :: "world \<Rightarrow> AuthenticatedSocket \<Rightarrow> string \<Rightarrow> world" where
  "leave_room s socket roomId =
     (let s1 = s\<lparr>adapter := (adapter s)(roomId := adapter s roomId - {socket_id socket})\<rparr>
      in emit_effect (Emit (socket_to s1 socket roomId) ''user_left''
                        (UserPayload (socket_userId socket) (socket_username socket))) s1)"

text \<open>\<^verbatim>\<open>data.messageType || 'text'\<close>\<close>

definition messageType_or_text :: "string option \<Rightarrow> string" where
  "messageType_or_text t = (if truthy t then the t else ''text'')"

text \<open>
  The \<^verbatim>\<open>send_message\<close> handler: the queue publish and the broadcast sit in one
  \<^verbatim>\<open>try\<close> block; the \<^verbatim>\<open>catch\<close> logs and emits \<^verbatim>\<open>error\<close> to the socket.
\<close>

definition send_message :: "faults \<Rightarrow> world \<Rightarrow> AuthenticatedSocket \<Rightarrow> SendData \<Rightarrow> world" where
  "send_message f s socket d =
     (case publishToQueue f s ''message_processing''
             (QueuePayload (data_roomId d) (data_content d)
                (messageType_or_text (data_messageType d)) (socket_userId socket)) of
        Inl e \<Rightarrow>
          emit_effect (Emit {socket_id socket} ''error'' (ErrorPayload ''Failed to send message''))
            (emit_effect (ConsoleError ''Error handling send_message:'') s)
      | Inr s1 \<Rightarrow>
          emit_effect (Emit (socket_to s1 socket (data_roomId d)) ''new_message''
                         (ChatPayload (data_roomId d) (data_content d)
                            (messageType_or_text (data_messageType d))
                            (socket_userId socket) (socket_username socket))) s1)"

text \<open>The \<^verbatim>\<open>typing_start\<close> and \<^verbatim>\<open>typing_stop\<close> handlers.\<close>

definition typing :: "world \<Rightarrow> AuthenticatedSocket \<Rightarrow> string \<Rightarrow> bool \<Rightarrow> world" where
  "typing s socket roomId isTyping =
     emit_effect (Emit (socket_to s socket roomId) ''user_typing''
                    (TypingPayload (socket_userId socket) (socket_username socket) isTyping)) s"

text \<open>The \<^verbatim>\<open>disconnect\<close> handler.\<close>

definition disconnect_handler :: "faults \<Rightarrow> world \<Rightarrow> AuthenticatedSocket \<Rightarrow> world" where
  "disconnect_handler f s socket =
     (if truthy (socket_userId socket)
      then updateUserOnlineStatus f
             (s\<lparr>connectedUsers := (connectedUsers s)(the (socket_userId socket) := None)\<rparr>)
             (the (socket_userId socket)) False
      else s)"

text \<open>\<^verbatim>\<open>emitToRoom\<close>, \<^verbatim>\<open>emitToUser\<close>, \<^verbatim>\<open>getConnectedUsers\<close>, \<^verbatim>\<open>isUserOnline\<close>\<close>

definition emitToRoom :: "world \<Rightarrow> string \<Rightarrow> string \<Rightarrow> payload \<Rightarrow> world" where
  "emitToRoom s roomId event d =
     (if io s then emit_effect (Emit (adapter s roomId) event d) s else s)"

definition emitToUser :: "world \<Rightarrow> string \<Rightarrow> string \<Rightarrow> payload \<Rightarrow> world" where
  "emitToUser s uid event d =
     (let socketId = connectedUsers s uid in
      if truthy socketId \<and> io s then emit_effect (Emit (adapter s (the socketId)) event d) s else s)"

definition isUserOnline :: "world \<Rightarrow> string \<Rightarrow> bool" where
  "isUserOnline s uid = (connectedUsers s uid \<noteq> None)"

section \<open>The HTTP authentication middleware\<close>

record Response =
  status :: nat
  success :: bool
  message :: string

text \<open>The \<^verbatim>\<open>catch\<close> block of \<^verbatim>\<open>authenticateToken\<close>.\<close>

definition auth_catch :: "error \<Rightarrow> Response" where
  "auth_catch e =
     (if instanceof_JsonWebTokenError e
      then \<lparr>status = 401, success = False, message = ''Invalid token''\<rparr>
      else \<lparr>status = 500, success = False, message = ''Authentication error''\<rparr>)"

text \<open>\<^verbatim>\<open>User.findById\<close> and \<^verbatim>\<open>Room.findById\<close>\<close>

definition User_findById :: "faults \<Rightarrow> world \<Rightarrow> string \<Rightarrow> error + IUser option" where
  "User_findById f s uid = (case find_throws f of Some e \<Rightarrow> Inl e | None \<Rightarrow> Inr (users s uid))"

definition Room_findById :: "faults \<Rightarrow> world \<Rightarrow> string \<Rightarrow> error + IRoom option" where
  "Room_findById f s rid = (case find_throws f of Some e \<Rightarrow> Inl e | None \<Rightarrow> Inr (rooms s rid))"

text \<open>
  \<^verbatim>\<open>authenticateToken\<close>: \<open>Inl\<close> is the response that ends the request, \<open>Inr\<close> is
  \<^verbatim>\<open>next()\<close> with \<^verbatim>\<open>req.user\<close> set. The argument is the \<^verbatim>\<open>authorization\<close> header.
\<close>

definition authenticateToken :: "config \<Rightarrow> faults \<Rightarrow> world \<Rightarrow> string option \<Rightarrow> Response + AuthPayload" where
  "authenticateToken cfg f s authHeader =
     (let token = (case authHeader of
                     None \<Rightarrow> None
                   | Some a \<Rightarrow> if a = [] then Some [] else bearer a) in
      if \<not> truthy token
      then Inl \<lparr>status = 401, success = False, message = ''Access token required''\<rparr>
      else if \<not> truthy (JWT_SECRET cfg)
      then Inl \<lparr>status = 500, success = False, message = ''JWT secret not configured''\<rparr>
      else (case jwt_verify cfg (the token) (JWT_SECRET cfg) of
              Inl e \<Rightarrow> Inl (auth_catch (Jwt e))
            | Inr decoded \<Rightarrow>
                (case User_findById f s (userId decoded) of
                   Inl e \<Rightarrow> Inl (auth_catch e)
                 | Inr None \<Rightarrow> Inl \<lparr>status = 401, success = False, message = ''User not found''\<rparr>
                 | Inr (Some user) \<Rightarrow>
                     Inr \<lparr>userId = user_id user, username = user_username user,
                          email = user_email user\<rparr>)))"

section \<open>The message service\<close>

text \<open>
  \<^verbatim>\<open>String.prototype.trim\<close> on the ASCII white space (tab, line feed, vertical tab,
  form feed, carriage return, space).
\<close>

definition is_space :: "char \<Rightarrow> bool" where
  "is_space c = (c \<in> {CHR 0x09, CHR 0x0A, CHR 0x0B, CHR 0x0C, CHR 0x0D, CHR '' ''})"

definition trim :: "string \<Rightarrow> string" where
  "trim s = rev (dropWhile is_space (rev (dropWhile is_space s)))"

text \<open>
  \<^verbatim>\<open>new Message({...messageData, sender: senderId})\<close> under the message schema: the
  content is trimmed and the message type defaults to \<^verbatim>\<open>text\<close>. The document id,
  which the driver generates, is the number of messages stored so far.
\<close>

definition new_Message :: "world \<Rightarrow> CreateMessageDto \<Rightarrow> string \<Rightarrow> IMessage" where
  "new_Message s messageData senderId =
     \<lparr>message_id = length (messages s),
      content = trim (dto_content messageData),
      sender = senderId,
      room = dto_room messageData,
      messageType = (case dto_messageType messageData of None \<Rightarrow> ''text'' | Some t \<Rightarrow> t)\<rparr>"

text \<open>
  The validation of the message schema that \<^verbatim>\<open>save()\<close> runs first: \<^verbatim>\<open>content\<close> is
  required and at most 2000 long, \<^verbatim>\<open>messageType\<close> is one of the enumeration,
  \<^verbatim>\<open>sender\<close> and \<^verbatim>\<open>room\<close> are required.
\<close>

definition messageSchema_valid :: "IMessage \<Rightarrow> bool" where
  "messageSchema_valid m =
     (content m \<noteq> [] \<and> length (content m) \<le> 2000
      \<and> messageType m \<in> {''text'', ''image'', ''file''}
      \<and> sender m \<noteq> [] \<and> room m \<noteq> [])"

text \<open>\<^verbatim>\<open>message.save()\<close>\<close>

definition message_save :: "faults \<Rightarrow> world \<Rightarrow> IMessage \<Rightarrow> error + world" where
  "message_save f s m =
     (if \<not> messageSchema_valid m then Inl ValidationError
      else (case save_throws f of
              Some e \<Rightarrow> Inl e
            | None \<Rightarrow> Inr (emit_effect (DbSaveMessage m) (s\<lparr>messages := messages s @ [m]\<rparr>))))"

text \<open>
  \<^verbatim>\<open>publishMessageToRedis\<close>: the \<^verbatim>\<open>catch\<close> logs and returns. The block reads
  \<^verbatim>\<open>message.room._id\<close> of the populated room, which throws inside the block when the
  room's document is gone.
\<close>

definition publishMessageToRedis :: "faults \<Rightarrow> world \<Rightarrow> IMessage \<Rightarrow> world" where
  "publishMessageToRedis f s m =
     (case rooms s (room m) of
        None \<Rightarrow> emit_effect (ConsoleError ''Error publishing message to Redis:'') s
      | Some r \<Rightarrow>
          (case redis_publish f s (''room:'' @ room m) (MessagePayload m) of
             Inl e \<Rightarrow> emit_effect (ConsoleError ''Error publishing message to Redis:'') s
           | Inr s1 \<Rightarrow> s1))"

text \<open>
  \<^verbatim>\<open>publishMessageToRabbitMQ\<close>: both publishes sit in one \<^verbatim>\<open>try\<close> block. The first
  reads \<^verbatim>\<open>message.sender._id\<close> of the populated sender, which throws inside the
  block when the sender's document is gone.
\<close>

definition publishMessageToRabbitMQ :: "faults \<Rightarrow> world \<Rightarrow> IMessage \<Rightarrow> world" where
  "publishMessageToRabbitMQ f s m =
     (case users s (sender m) of
        None \<Rightarrow> emit_effect (ConsoleError ''Error publishing message to RabbitMQ:'') s
      | Some u \<Rightarrow>
          (case publishToQueue f s ''message_processing''
                  (MessageSentPayload (message_id m) (sender m) (room m) (content m)) of
             Inl e \<Rightarrow> emit_effect (ConsoleError ''Error publishing message to RabbitMQ:'') s
           | Inr s1 \<Rightarrow>
               (case publishToQueue f s1 ''message_logging'' (MessagePayload m) of
                  Inl e \<Rightarrow> emit_effect (ConsoleError ''Error publishing message to RabbitMQ:'') s1
                | Inr s2 \<Rightarrow> s2)))"

text \<open>
  \<^verbatim>\<open>MessageService.sendMessage\<close>. \<open>Inl\<close> is the error thrown to the caller. The two
  \<^verbatim>\<open>populate\<close> calls only read; they are a point where the store can throw.
\<close>

definition sendMessage :: "faults \<Rightarrow> world \<Rightarrow> CreateMessageDto \<Rightarrow> string \<Rightarrow> (error + IMessage) \<times> world" where
  "sendMessage f s messageData senderId =
     (case Room_findById f s (dto_room messageData) of
        Inl e \<Rightarrow> (Inl e, s)
      | Inr None \<Rightarrow> (Inl (Error ''Room not found''), s)
      | Inr (Some r) \<Rightarrow>
          if senderId \<notin> set (members r)
          then (Inl (Error ''User is not a member of this room''), s)
          else (let m = new_Message s messageData senderId in
                case message_save f s m of
                  Inl e \<Rightarrow> (Inl e, s)
                | Inr s1 \<Rightarrow>
                    (case populate_throws f of
                       Some e \<Rightarrow> (Inl e, s1)
                     | None \<Rightarrow>
                         (let s2 = emitToRoom s1 (dto_room messageData) ''new_message'' (MessagePayload m);
                              s3 = publishMessageToRedis f s2 m;
                              s4 = publishMessageToRabbitMQ f s3 m
                          in (Inr m, s4)))))"

section \<open>The room service\<close>

text \<open>
  \<^verbatim>\<open>room.save()\<close> with the \<^verbatim>\<open>pre('save')\<close> hook of the room schema, which adds the
  owner to the members when missing.
\<close>

definition room_pre_save :: "IRoom \<Rightarrow> IRoom" where
  "room_pre_save r =
     (if owner r \<notin> set (members r) then r\<lparr>members := members r @ [owner r]\<rparr> else r)"

definition room_save :: "faults \<Rightarrow> world \<Rightarrow> string \<Rightarrow> IRoom \<Rightarrow> error + IRoom \<times> world" where
  "room_save f s rid r =
     (let r1 = room_pre_save r in
      case save_throws f of
        Some e \<Rightarrow> Inl e
      | None \<Rightarrow> Inr (r1, emit_effect (DbSaveRoom rid r1) (s\<lparr>rooms := (rooms s)(rid \<mapsto> r1)\<rparr>)))"

text \<open>\<^verbatim>\<open>RoomService.joinRoom\<close>\<close>

definition joinRoom :: "faults \<Rightarrow> world \<Rightarrow> string \<Rightarrow> string \<Rightarrow> (error + IRoom) \<times> world" where
  "joinRoom f s roomId uid =
     (case Room_findById f s roomId of
        Inl e \<Rightarrow> (Inl e, s)
      | Inr None \<Rightarrow> (Inl (Error ''Room not found''), s)
      | Inr (Some r) \<Rightarrow>
          if uid \<in> set (members r)
          then (Inl (Error ''User is already a member of this room''), s)
          else (case room_save f s roomId (r\<lparr>members := members r @ [uid]\<rparr>) of
                  Inl e \<Rightarrow> (Inl e, s)
                | Inr (r1, s1) \<Rightarrow>
                    (case populate_throws f of
                       Some e \<Rightarrow> (Inl e, s1)
                     | None \<Rightarrow> (Inr r1, s1))))"

section \<open>The HTTP routes\<close>

text \<open>The \<^verbatim>\<open>errorHandler\<close> middleware. The text of a library error is not modelled.\<close>

fun error_message :: "error \<Rightarrow> string" where
  "error_message (Error m) = m"
| "error_message _ = []"

fun errorHandler :: "error \<Rightarrow> Response" where
  "errorHandler ValidationError = \<lparr>status = 400, success = False, message = ''Validation error''\<rparr>"
| "errorHandler CastError = \<lparr>status = 400, success = False, message = ''Invalid ID format''\<rparr>"
| "errorHandler (Jwt JsonWebTokenError) = \<lparr>status = 401, success = False, message = ''Invalid token''\<rparr>"
| "errorHandler (Jwt TokenExpiredError) = \<lparr>status = 401, success = False, message = ''Token expired''\<rparr>"
| "errorHandler e =
     \<lparr>status = 500, success = False,
      message = (if error_message e = [] then ''Internal server error'' else error_message e)\<rparr>"

text \<open>The body of \<^verbatim>\<open>POST /messages\<close>; a field that is absent is \<open>None\<close>.\<close>

record MessageBody =
  body_content :: "string option"
  body_room :: "string option"
  body_messageType :: "string option"

text \<open>
  \<^verbatim>\<open>sendMessageValidation\<close>: the list of the messages of the checks that fail. A
  check reads an absent field as the empty string; \<^verbatim>\<open>optional()\<close> skips an absent
  field. \<^verbatim>\<open>isLength\<close> runs before the \<^verbatim>\<open>trim\<close> sanitizer.
\<close>

definition or_empty :: "string option \<Rightarrow> string" where
  "or_empty v = (case v of None \<Rightarrow> [] | Some x \<Rightarrow> x)"

definition sendMessageValidation :: "config \<Rightarrow> MessageBody \<Rightarrow> string list" where
  "sendMessageValidation cfg b =
     (if 1 \<le> length (or_empty (body_content b)) \<and> length (or_empty (body_content b)) \<le> 2000
      then [] else [''Message content must be between 1 and 2000 characters''])
     @ (if isMongoId cfg (or_empty (body_room b)) then [] else [''Invalid room ID format''])
     @ (case body_messageType b of
          None \<Rightarrow> []
        | Some t \<Rightarrow> if t \<in> {''text'', ''image'', ''file''} then []
                    else [''Message type must be text, image, or file''])"

text \<open>The body after the sanitizers, read as a \<^verbatim>\<open>CreateMessageDto\<close>.\<close>

definition sanitized :: "MessageBody \<Rightarrow> CreateMessageDto" where
  "sanitized b =
     \<lparr>dto_content = trim (or_empty (body_content b)),
      dto_room = or_empty (body_room b),
      dto_messageType = body_messageType b\<rparr>"

text \<open>
  \<^verbatim>\<open>router.post('/', authenticateToken, sendMessageValidation, handleValidationErrors,
  messageController.sendMessage)\<close>
\<close>

definition post_messages :: "config \<Rightarrow> faults \<Rightarrow> world \<Rightarrow> string option \<Rightarrow> MessageBody \<Rightarrow> Response \<times> world" where
  "post_messages cfg f s authHeader b =
     (case authenticateToken cfg f s authHeader of
        Inl res \<Rightarrow> (res, s)
      | Inr user \<Rightarrow>
          if sendMessageValidation cfg b \<noteq> []
          then (\<lparr>status = 400, success = False, message = ''Validation failed''\<rparr>, s)
          else (case sendMessage f s (sanitized b) (userId user) of
                  (Inl e, s1) \<Rightarrow> (errorHandler e, s1)
                | (Inr m, s1) \<Rightarrow>
                    (\<lparr>status = 201, success = True, message = ''Message sent successfully''\<rparr>, s1)))"

text \<open>
  \<^verbatim>\<open>router.post('/:roomId/join', authenticateToken, roomIdValidation,
  handleValidationErrors, roomController.joinRoom)\<close>
\<close>

definition post_rooms_join :: "config \<Rightarrow> faults \<Rightarrow> world \<Rightarrow> string option \<Rightarrow> string \<Rightarrow> Response \<times> world" where
  "post_rooms_join cfg f s authHeader roomId =
     (case authenticateToken cfg f s authHeader of
        Inl res \<Rightarrow> (res, s)
      | Inr user \<Rightarrow>
          if \<not> isMongoId cfg roomId
          then (\<lparr>status = 400, success = False, message = ''Validation failed''\<rparr>, s)
          else (case joinRoom f s roomId (userId user) of
                  (Inl e, s1) \<Rightarrow> (errorHandler e, s1)
                | (Inr r, s1) \<Rightarrow>
                    (\<lparr>status = 200, success = True, message = ''Joined room successfully''\<rparr>, s1)))"

section \<open>The process as a transition system\<close>

text \<open>
  One event is one handshake, one client event on a live connection, one disconnect
  or one HTTP request. The framework gives every connection a fresh id, subscribes it
  to the group of its own id before the \<^verbatim>\<open>connection\<close> handler runs, and on
  disconnect removes it from every group before the \<^verbatim>\<open>disconnect\<close> handler runs.
  A client event on an id that is not a live connection has no handler. A handler
  runs to its end before the next event is taken: the effects of one handler,
  including the presence update that the \<^verbatim>\<open>connection\<close> and \<^verbatim>\<open>disconnect\<close> handlers
  start without awaiting it, appear in program order, and the interleaving of
  handlers at their awaits is left out.
\<close>

datatype event =
    Connection string Handshake
  | Join_room string string
  | Leave_room string string
  | Send_message string SendData
  | Typing string string bool
  | Disconnect string
  | Post_messages "string option" MessageBody
  | Post_rooms_join "string option" string

definition new_socket :: "string \<Rightarrow> Handshake \<Rightarrow> AuthenticatedSocket" where
  "new_socket sid h =
     \<lparr>socket_id = sid, handshake = h, socket_userId = None, socket_username = None\<rparr>"

fun step :: "config \<Rightarrow> faults \<Rightarrow> world \<Rightarrow> event \<Rightarrow> world" where
  "step cfg f s (Connection sid h) =
     (if io s \<and> sockets s sid = None
      then (case socket_middleware cfg (new_socket sid h) of
              Inl e \<Rightarrow> s
            | Inr socket \<Rightarrow>
                connection_handler f
                  (s\<lparr>adapter := (adapter s)(sid := insert sid (adapter s sid))\<rparr>) socket)
      else s)"
| "step cfg f s (Join_room sid roomId) =
     (case sockets s sid of None \<Rightarrow> s | Some socket \<Rightarrow> join_room s socket roomId)"
| "step cfg f s (Leave_room sid roomId) =
     (case sockets s sid of None \<Rightarrow> s | Some socket \<Rightarrow> leave_room s socket roomId)"
| "step cfg f s (Send_message sid d) =
     (case sockets s sid of None \<Rightarrow> s | Some socket \<Rightarrow> send_message f s socket d)"
| "step cfg f s (Typing sid roomId isTyping) =
     (case sockets s sid of None \<Rightarrow> s | Some socket \<Rightarrow> typing s socket roomId isTyping)"
| "step cfg f s (Disconnect sid) =
     (case sockets s sid of
        None \<Rightarrow> s
      | Some socket \<Rightarrow>
          disconnect_handler f
            (s\<lparr>adapter := (\<lambda>r. adapter s r - {sid}), sockets := (sockets s)(sid := None)\<rparr>)
            socket)"
| "step cfg f s (Post_messages authHeader b) = snd (post_messages cfg f s authHeader b)"
| "step cfg f s (Post_rooms_join authHeader roomId) = snd (post_rooms_join cfg f s authHeader roomId)"

text \<open>A run: the events in order, each under its own faults.\<close>

fun run :: "config \<Rightarrow> world \<Rightarrow> (faults \<times> event) list \<Rightarrow> world" where
  "run cfg s [] = s"
| "run cfg s ((f, ev) # evs) = run cfg (step cfg f s ev) evs"

text \<open>
  The process starts with no connection, no group and an empty registry; the store
  holds anything.
\<close>

definition initial :: "world \<Rightarrow> bool" where
  "initial s = (sockets s = Map.empty \<and> adapter s = (\<lambda>r. {}) \<and> connectedUsers s = Map.empty
                \<and> trace s = [])"

inductive reachable :: "config \<Rightarrow> world \<Rightarrow> bool" for cfg :: config where
  reachable_initial: "initial s \<Longrightarrow> reachable cfg s"
| reachable_step: "reachable cfg s \<Longrightarrow> reachable cfg (step cfg f s ev)"

section \<open>Predicates of the properties\<close>

text \<open>
  The authentication middleware of the handshake accepted the connection: run on the
  connection's id and handshake it calls \<^verbatim>\<open>next()\<close> and yields this very socket.
\<close>

definition gate_validated :: "config \<Rightarrow> AuthenticatedSocket \<Rightarrow> bool" where
  "gate_validated cfg k = (socket_middleware cfg (new_socket (socket_id k) (handshake k)) = Inr k)"

text \<open>
  The store holds the room and lists the connection's identity among its members.
\<close>

definition member_confirmed :: "world \<Rightarrow> AuthenticatedSocket \<Rightarrow> string \<Rightarrow> bool" where
  "member_confirmed s k roomId =
     (case rooms s roomId of
        None \<Rightarrow> False
      | Some r \<Rightarrow> (case socket_userId k of None \<Rightarrow> False | Some uid \<Rightarrow> uid \<in> set (members r)))"

text \<open>The effects that a handler added to the trace.\<close>

definition new_effects :: "world \<Rightarrow> world \<Rightarrow> effect list" where
  "new_effects s s' = drop (length (trace s)) (trace s')"

fun is_new_message :: "effect \<Rightarrow> bool" where
  "is_new_message (Emit rs ev p) = (ev = ''new_message'')"
| "is_new_message _ = False"

fun is_publish :: "effect \<Rightarrow> bool" where
  "is_publish (RedisPublish c p) = True"
| "is_publish (SendToQueue q p) = True"
| "is_publish _ = False"

fun is_write :: "effect \<Rightarrow> bool" where
  "is_write (DbSaveMessage m) = True"
| "is_write (DbSaveRoom rid r) = True"
| "is_write _ = False"

fun recipients :: "effect \<Rightarrow> string set" where
  "recipients (Emit rs ev p) = rs"
| "recipients _ = {}"

section \<open>Sample configuration and store\<close>

definition no_faults :: faults where
  "no_faults =
     \<lparr>find_throws = None, save_throws = None, populate_throws = None,
      setEx_throws = None, publish_throws = None, sendToQueue_throws = (\<lambda>q. None)\<rparr>"

definition brokers_down :: faults where
  "brokers_down =
     \<lparr>find_throws = None, save_throws = None, populate_throws = None,
      setEx_throws = Some RedisError, publish_throws = Some RedisError,
      sendToQueue_throws = (\<lambda>q. Some AmqpError)\<rparr>"

definition store_rejects :: faults where
  "store_rejects =
     \<lparr>find_throws = None, save_throws = Some MongoError, populate_throws = None,
      setEx_throws = None, publish_throws = None, sendToQueue_throws = (\<lambda>q. None)\<rparr>"

text \<open>The ids of three users, in the form of the store's object ids.\<close>

abbreviation alice_id :: string where
  "alice_id \<equiv> ''60d5ec49f1a2c8b1f8e4e1a1''"

abbreviation bob_id :: string where
  "bob_id \<equiv> ''60d5ec49f1a2c8b1f8e4e1b2''"

abbreviation ghost_id :: string where
  "ghost_id \<equiv> ''60d5ec49f1a2c8b1f8e4e1c3''"

definition alice :: AuthPayload where
  "alice = \<lparr>userId = alice_id, username = ''alice'', email = ''alice@example.com''\<rparr>"

definition bob :: AuthPayload where
  "bob = \<lparr>userId = bob_id, username = ''bob'', email = ''bob@example.com''\<rparr>"

definition ghost :: AuthPayload where
  "ghost = \<lparr>userId = ghost_id, username = ''ghost'', email = ''ghost@example.com''\<rparr>"

text \<open>
  A verifier for the samples: three tokens that verify under the secret, one that has
  expired; everything else is invalid.
\<close>

definition sample_verify :: "string \<Rightarrow> string option \<Rightarrow> jwt_error + AuthPayload" where
  "sample_verify token secret =
     (if secret = Some ''s3cret'' \<and> token = ''token-alice'' then Inr alice
      else if secret = Some ''s3cret'' \<and> token = ''token-bob'' then Inr bob
      else if secret = Some ''s3cret'' \<and> token = ''token-ghost'' then Inr ghost
      else if secret = Some ''s3cret'' \<and> token = ''token-old'' then Inl TokenExpiredError
      else Inl JsonWebTokenError)"

definition sample_isMongoId :: "string \<Rightarrow> bool" where
  "sample_isMongoId x = (length x = 24 \<and> set x \<subseteq> set ''0123456789abcdef'')"

definition sample_config :: config where
  "sample_config =
     \<lparr>JWT_SECRET = Some ''s3cret'', jwt_verify = sample_verify, isMongoId = sample_isMongoId\<rparr>"

definition general :: string where
  "general = ''5f00000000000000000000a1''"

definition team :: string where
  "team = ''5f00000000000000000000b2''"

text \<open>
  Two users; a public room with both as members and a private room whose only
  member is its owner. The user of the third token has been deleted.
\<close>

definition sample_store :: world where
  "sample_store =
     \<lparr>users = [alice_id \<mapsto> \<lparr>user_id = alice_id, user_username = ''alice'',
                                 user_email = ''alice@example.com''\<rparr>,
               bob_id \<mapsto> \<lparr>user_id = bob_id, user_username = ''bob'',
                               user_email = ''bob@example.com''\<rparr>],
      rooms = [general \<mapsto> \<lparr>name = ''general'', isPrivate = False, owner = alice_id,
                              members = [alice_id, bob_id]\<rparr>,
               team \<mapsto> \<lparr>name = ''Private Team'', isPrivate = True, owner = alice_id,
                           members = [alice_id]\<rparr>],
      messages = [],
      io = True,
      channel = True,
      sockets = Map.empty,
      adapter = (\<lambda>r. {}),
      connectedUsers = Map.empty,
      trace = []\<rparr>"

definition token_handshake :: "string \<Rightarrow> Handshake" where
  "token_handshake token = \<lparr>auth_token = Some token, authorization = None\<rparr>"

text \<open>The connections that the gate makes of the three tokens.\<close>

definition alice_socket :: "string \<Rightarrow> AuthenticatedSocket" where
  "alice_socket sid =
     \<lparr>socket_id = sid, handshake = token_handshake ''token-alice'',
      socket_userId = Some alice_id, socket_username = Some ''alice''\<rparr>"

definition bob_socket :: "string \<Rightarrow> AuthenticatedSocket" where
  "bob_socket sid =
     \<lparr>socket_id = sid, handshake = token_handshake ''token-bob'',
      socket_userId = Some bob_id, socket_username = Some ''bob''\<rparr>"

definition ghost_socket :: "string \<Rightarrow> AuthenticatedSocket" where
  "ghost_socket sid =
     \<lparr>socket_id = sid, handshake = token_handshake ''token-ghost'',
      socket_userId = Some ghost_id, socket_username = Some ''ghost''\<rparr>"

text \<open>The second user connects and asks to join the private room.\<close>

definition bob_joins_team :: "(faults \<times> event) list" where
  "bob_joins_team =
     [(no_faults, Connection ''c1'' (token_handshake ''token-bob'')),
      (no_faults, Join_room ''c1'' team)]"

text \<open>Both users connect and join the public room.\<close>

definition chat_run :: "(faults \<times> event) list" where
  "chat_run =
     [(no_faults, Connection ''c1'' (token_handshake ''token-alice'')),
      (no_faults, Connection ''c2'' (token_handshake ''token-bob'')),
      (no_faults, Join_room ''c1'' general),
      (no_faults, Join_room ''c2'' general)]"

definition chatting :: world where
  "chatting = run sample_config sample_store chat_run"

text \<open>
  In the chat, the first user's connection asks to leave the group of its own id.
\<close>

definition left_own :: world where
  "left_own = run sample_config chatting [(no_faults, Leave_room ''c1'' ''c1'')]"



text \<open>A short message to the public room, in the three forms in which it travels.\<close>

definition hi_general :: CreateMessageDto where
  "hi_general = \<lparr>dto_content = ''hi'', dto_room = general, dto_messageType = None\<rparr>"

definition hi_body :: MessageBody where
  "hi_body = \<lparr>body_content = Some ''hi'', body_room = Some general, body_messageType = None\<rparr>"

definition hi_data :: SendData where
  "hi_data = \<lparr>data_roomId = general, data_content = ''hi'', data_messageType = None\<rparr>"

definition hi_message :: IMessage where
  "hi_message =
     \<lparr>message_id = 0, content = ''hi'', sender = alice_id, room = general,
      messageType = ''text''\<rparr>"

text \<open>A content of 2001 characters, with a message type outside the enumeration.\<close>

definition long_data :: SendData where
  "long_data =
     \<lparr>data_roomId = general, data_content = replicate 2001 (CHR ''a''),
      data_messageType = Some ''video''\<rparr>"

definition long_body :: MessageBody where
  "long_body =
     \<lparr>body_content = Some (replicate 2001 (CHR ''a'')), body_room = Some general,
      body_messageType = None\<rparr>"

section \<open>The invariant of the gate\<close>

text \<open>
  Every live connection is stored under its own id and was accepted by the
  handshake middleware, and every member of a group is a live connection.
\<close>

definition gate_invariant :: "config \<Rightarrow> world \<Rightarrow> bool" where
  "gate_invariant cfg s =
     ((\<forall>sid k. sockets s sid = Some k \<longrightarrow> socket_id k = sid \<and> gate_validated cfg k)
      \<and> (\<forall>r sid. sid \<in> adapter s r \<longrightarrow> sockets s sid \<noteq> None))"

section \<open>What a handler leaves alone\<close>

lemma emit_effect_fields [simp]:
  "users (emit_effect e s) = users s"
  "rooms (emit_effect e s) = rooms s"
  "messages (emit_effect e s) = messages s"
  "io (emit_effect e s) = io s"
  "channel (emit_effect e s) = channel s"
  "sockets (emit_effect e s) = sockets s"
  "adapter (emit_effect e s) = adapter s"
  "connectedUsers (emit_effect e s) = connectedUsers s"
  "trace (emit_effect e s) = trace s @ [e]"
  by (simp_all add: emit_effect_def)

lemma updateUserOnlineStatus_fields [simp]:
  "users (updateUserOnlineStatus f s u b) = users s"
  "rooms (updateUserOnlineStatus f s u b) = rooms s"
  "messages (updateUserOnlineStatus f s u b) = messages s"
  "io (updateUserOnlineStatus f s u b) = io s"
  "channel (updateUserOnlineStatus f s u b) = channel s"
  "sockets (updateUserOnlineStatus f s u b) = sockets s"
  "adapter (updateUserOnlineStatus f s u b) = adapter s"
  "connectedUsers (updateUserOnlineStatus f s u b) = connectedUsers s"
  by (simp_all add: updateUserOnlineStatus_def redis_setEx_def redis_publish_def
        split: option.splits)

lemma sockets_fields [simp]:
  "sockets (connection_handler f s k) = (sockets s)(socket_id k \<mapsto> k)"
  "sockets (join_room s k r) = sockets s"
  "sockets (leave_room s k r) = sockets s"
  "sockets (send_message f s k d) = sockets s"
  "sockets (typing s k r b) = sockets s"
  "sockets (disconnect_handler f s k) = sockets s"
  by (simp_all add: connection_handler_def join_room_def leave_room_def send_message_def
        typing_def disconnect_handler_def publishToQueue_def Let_def split: option.splits)

lemma adapter_fields [simp]:
  "adapter (connection_handler f s k) = adapter s"
  "adapter (join_room s k r) = (adapter s)(r := insert (socket_id k) (adapter s r))"
  "adapter (leave_room s k r) = (adapter s)(r := adapter s r - {socket_id k})"
  "adapter (send_message f s k d) = adapter s"
  "adapter (typing s k r b) = adapter s"
  "adapter (disconnect_handler f s k) = adapter s"
  by (simp_all add: connection_handler_def join_room_def leave_room_def send_message_def
        typing_def disconnect_handler_def publishToQueue_def Let_def split: option.splits)

lemma store_fields [simp]:
  "users (connection_handler f s k) = users s"
  "users (join_room s k r) = users s"
  "users (leave_room s k r) = users s"
  "users (send_message f s k d) = users s"
  "users (typing s k r b) = users s"
  "users (disconnect_handler f s k) = users s"
  "rooms (connection_handler f s k) = rooms s"
  "rooms (join_room s k r) = rooms s"
  "rooms (leave_room s k r) = rooms s"
  "rooms (send_message f s k d) = rooms s"
  "rooms (typing s k r b) = rooms s"
  "rooms (disconnect_handler f s k) = rooms s"
  "messages (connection_handler f s k) = messages s"
  "messages (join_room s k r) = messages s"
  "messages (leave_room s k r) = messages s"
  "messages (send_message f s k d) = messages s"
  "messages (typing s k r b) = messages s"
  "messages (disconnect_handler f s k) = messages s"
  by (simp_all add: connection_handler_def join_room_def leave_room_def send_message_def
        typing_def disconnect_handler_def publishToQueue_def Let_def split: option.splits)

lemma process_fields [simp]:
  "io (connection_handler f s k) = io s"
  "io (join_room s k r) = io s"
  "io (leave_room s k r) = io s"
  "io (send_message f s k d) = io s"
  "io (typing s k r b) = io s"
  "io (disconnect_handler f s k) = io s"
  "channel (connection_handler f s k) = channel s"
  "channel (join_room s k r) = channel s"
  "channel (leave_room s k r) = channel s"
  "channel (send_message f s k d) = channel s"
  "channel (typing s k r b) = channel s"
  "channel (disconnect_handler f s k) = channel s"
  "connectedUsers (join_room s k r) = connectedUsers s"
  "connectedUsers (leave_room s k r) = connectedUsers s"
  "connectedUsers (send_message f s k d) = connectedUsers s"
  "connectedUsers (typing s k r b) = connectedUsers s"
  by (simp_all add: connection_handler_def join_room_def leave_room_def send_message_def
        typing_def disconnect_handler_def publishToQueue_def Let_def split: option.splits)

lemma connectedUsers_connection_handler:
  "connectedUsers (connection_handler f s k) =
     (if truthy (socket_userId k)
      then (connectedUsers s)(the (socket_userId k) \<mapsto> socket_id k)
      else connectedUsers s)"
  by (simp add: connection_handler_def Let_def)

lemma connectedUsers_disconnect_handler:
  "connectedUsers (disconnect_handler f s k) =
     (if truthy (socket_userId k)
      then (connectedUsers s)(the (socket_userId k) := None)
      else connectedUsers s)"
  by (simp add: disconnect_handler_def)

lemma publish_fields [simp]:
  "sockets (publishMessageToRedis f s m) = sockets s"
  "adapter (publishMessageToRedis f s m) = adapter s"
  "users (publishMessageToRedis f s m) = users s"
  "channel (publishMessageToRedis f s m) = channel s"
  "messages (publishMessageToRedis f s m) = messages s"
  "sockets (publishMessageToRabbitMQ f s m) = sockets s"
  "adapter (publishMessageToRabbitMQ f s m) = adapter s"
  "messages (publishMessageToRabbitMQ f s m) = messages s"
  "sockets (emitToRoom s r ev p) = sockets s"
  "adapter (emitToRoom s r ev p) = adapter s"
  "users (emitToRoom s r ev p) = users s"
  "rooms (emitToRoom s r ev p) = rooms s"
  "channel (emitToRoom s r ev p) = channel s"
  "messages (emitToRoom s r ev p) = messages s"
  by (simp_all add: publishMessageToRedis_def publishMessageToRabbitMQ_def emitToRoom_def
        redis_publish_def publishToQueue_def split: option.splits)

text \<open>The HTTP services and routes touch neither the connections nor the groups.\<close>

lemma sendMessage_realtime [simp]:
  "sockets (snd (sendMessage f s md uid)) = sockets s"
  "adapter (snd (sendMessage f s md uid)) = adapter s"
  by (simp_all add: sendMessage_def Room_findById_def message_save_def Let_def
        split: option.splits sum.splits)

lemma joinRoom_realtime [simp]:
  "sockets (snd (joinRoom f s r uid)) = sockets s"
  "adapter (snd (joinRoom f s r uid)) = adapter s"
  by (simp_all add: joinRoom_def Room_findById_def room_save_def Let_def
        split: option.splits sum.splits)

lemma snd_case_result [simp]:
  "snd (case p of (Inl e, s1) \<Rightarrow> (g e, s1) | (Inr m, s1) \<Rightarrow> (h m, s1)) = snd p"
  by (auto split: prod.splits sum.splits)

lemma post_realtime [simp]:
  "sockets (snd (post_messages cfg f s h b)) = sockets s"
  "adapter (snd (post_messages cfg f s h b)) = adapter s"
  "sockets (snd (post_rooms_join cfg f s h r)) = sockets s"
  "adapter (snd (post_rooms_join cfg f s h r)) = adapter s"
  by (simp_all add: post_messages_def post_rooms_join_def split: sum.splits)

section \<open>The traces of the handlers\<close>

lemma new_effects_append: "trace s' = trace s @ es \<Longrightarrow> new_effects s s' = es"
  by (simp add: new_effects_def)


lemma trace_send_message:
  "trace (send_message f s k d) =
     trace s @
       (if channel s \<and> sendToQueue_throws f ''message_processing'' = None
        then [SendToQueue ''message_processing''
                (QueuePayload (data_roomId d) (data_content d)
                   (messageType_or_text (data_messageType d)) (socket_userId k)),
              Emit (adapter s (data_roomId d) - adapter s (socket_id k)) ''new_message''
                (ChatPayload (data_roomId d) (data_content d)
                   (messageType_or_text (data_messageType d))
                   (socket_userId k) (socket_username k))]
        else [ConsoleError ''Error handling send_message:'',
              Emit {socket_id k} ''error'' (ErrorPayload ''Failed to send message'')])"
  by (auto simp add: send_message_def publishToQueue_def socket_to_def split: option.splits)

lemma trace_emitToRoom:
  "trace (emitToRoom s r ev p) = trace s @ (if io s then [Emit (adapter s r) ev p] else [])"
  by (simp add: emitToRoom_def)

lemma trace_publishMessageToRedis:
  "trace (publishMessageToRedis f s m) =
     trace s @
       (if rooms s (room m) = None
        then [ConsoleError ''Error publishing message to Redis:'']
        else (case publish_throws f of
                Some e \<Rightarrow> [ConsoleError ''Error publishing message to Redis:'']
              | None \<Rightarrow> [RedisPublish (''room:'' @ room m) (MessagePayload m)]))"
  by (simp add: publishMessageToRedis_def redis_publish_def split: option.splits)

lemma trace_publishMessageToRabbitMQ:
  "trace (publishMessageToRabbitMQ f s m) =
     trace s @
       (if users s (sender m) = None \<or> \<not> channel s
        then [ConsoleError ''Error publishing message to RabbitMQ:'']
        else (case sendToQueue_throws f ''message_processing'' of
                Some e \<Rightarrow> [ConsoleError ''Error publishing message to RabbitMQ:'']
              | None \<Rightarrow>
                  SendToQueue ''message_processing''
                    (MessageSentPayload (message_id m) (sender m) (room m) (content m)) #
                  (case sendToQueue_throws f ''message_logging'' of
                     Some e \<Rightarrow> [ConsoleError ''Error publishing message to RabbitMQ:'']
                   | None \<Rightarrow> [SendToQueue ''message_logging'' (MessagePayload m)])))"
  by (simp add: publishMessageToRabbitMQ_def publishToQueue_def split: option.splits)

section \<open>The samples, evaluated\<close>

lemma no_faults_fields [simp]:
  "find_throws no_faults = None" "save_throws no_faults = None"
  "populate_throws no_faults = None" "setEx_throws no_faults = None"
  "publish_throws no_faults = None" "sendToQueue_throws no_faults q = None"
  by (simp_all add: no_faults_def)

lemma brokers_down_fields [simp]:
  "find_throws brokers_down = None" "save_throws brokers_down = None"
  "populate_throws brokers_down = None" "setEx_throws brokers_down = Some RedisError"
  "publish_throws brokers_down = Some RedisError"
  "sendToQueue_throws brokers_down q = Some AmqpError"
  by (simp_all add: brokers_down_def)

lemma store_rejects_fields [simp]:
  "find_throws store_rejects = None" "save_throws store_rejects = Some MongoError"
  "populate_throws store_rejects = None"
  by (simp_all add: store_rejects_def)

lemma sample_store_fields [simp]:
  "io sample_store" "channel sample_store"
  "sockets sample_store = Map.empty" "adapter sample_store = (\<lambda>r. {})"
  "connectedUsers sample_store = Map.empty" "trace sample_store = []"
  "messages sample_store = []"
  by (simp_all add: sample_store_def)

lemma users_sample [simp]:
  "users sample_store alice_id =
     Some \<lparr>user_id = alice_id, user_username = ''alice'', user_email = ''alice@example.com''\<rparr>"
  "users sample_store ghost_id = None"
  by (simp_all add: sample_store_def)

lemma rooms_general:
  "rooms sample_store general =
     Some \<lparr>name = ''general'', isPrivate = False, owner = alice_id,
           members = [alice_id, bob_id]\<rparr>"
  by (simp add: sample_store_def team_def general_def)

lemma rooms_team:
  "rooms sample_store team =
     Some \<lparr>name = ''Private Team'', isPrivate = True, owner = alice_id,
           members = [alice_id]\<rparr>"
  by (simp add: sample_store_def team_def general_def)

lemma rooms_unknown: "rooms sample_store ''5f00000000000000000000ff'' = None"
  by (simp add: sample_store_def team_def general_def)

lemma initial_sample_store: "initial sample_store"
  by (simp add: initial_def sample_store_def)

lemma middleware_alice:
  "socket_middleware sample_config (new_socket sid (token_handshake ''token-alice'')) =
     Inr (alice_socket sid)"
  by (simp add: socket_middleware_def new_socket_def token_handshake_def handshake_token_def
        sample_config_def sample_verify_def alice_def alice_socket_def)

lemma middleware_bob:
  "socket_middleware sample_config (new_socket sid (token_handshake ''token-bob'')) =
     Inr (bob_socket sid)"
  by (simp add: socket_middleware_def new_socket_def token_handshake_def handshake_token_def
        sample_config_def sample_verify_def bob_def bob_socket_def)

lemma middleware_ghost:
  "socket_middleware sample_config (new_socket sid (token_handshake ''token-ghost'')) =
     Inr (ghost_socket sid)"
  by (simp add: socket_middleware_def new_socket_def token_handshake_def handshake_token_def
        sample_config_def sample_verify_def ghost_def ghost_socket_def)

lemma authenticate_alice:
  "users s = users sample_store \<Longrightarrow>
   authenticateToken sample_config no_faults s (Some ''Bearer token-alice'') = Inr alice"
  by (simp add: authenticateToken_def bearer_def sample_config_def sample_verify_def
        User_findById_def alice_def)

lemma bob_run_fields:
  "sockets (run sample_config sample_store bob_joins_team) ''c1'' = Some (bob_socket ''c1'')"
  "''c1'' \<in> adapter (run sample_config sample_store bob_joins_team) team"
  "rooms (run sample_config sample_store bob_joins_team) = rooms sample_store"
  by (simp_all add: bob_joins_team_def middleware_bob bob_socket_def)

lemma chatting_fields:
  "sockets chatting ''c1'' = Some (alice_socket ''c1'')"
  "sockets chatting ''c2'' = Some (bob_socket ''c2'')"
  "adapter chatting general = {''c1'', ''c2''}"
  "adapter chatting ''c1'' = {''c1''}"
  "connectedUsers chatting alice_id = Some ''c1''"
  "rooms chatting = rooms sample_store"
  "users chatting = users sample_store"
  "messages chatting = []"
  "io chatting" "channel chatting"
  by (simp_all add: chatting_def chat_run_def middleware_alice middleware_bob
        alice_socket_def bob_socket_def connectedUsers_connection_handler general_def
        insert_commute)


lemma hi_message_fields:
  "message_id hi_message = 0" "content hi_message = ''hi''" "sender hi_message = alice_id"
  "room hi_message = general" "dto_room hi_general = general"
  by (simp_all add: hi_message_def hi_general_def)

lemma new_Message_hi: "messages s = [] \<Longrightarrow> new_Message s hi_general alice_id = hi_message"
  by (simp add: new_Message_def hi_general_def hi_message_def trim_def is_space_def)

lemma save_hi:
  "save_throws f = None \<Longrightarrow>
   message_save f s hi_message =
     Inr (emit_effect (DbSaveMessage hi_message) (s\<lparr>messages := messages s @ [hi_message]\<rparr>))"
  by (simp add: message_save_def messageSchema_valid_def hi_message_def general_def)

lemma save_hi_rejected: "message_save store_rejects s hi_message = Inl MongoError"
  by (simp add: message_save_def messageSchema_valid_def hi_message_def general_def)

section \<open>The session registry\<close>

text \<open>
  Claim C6. Register is the \<^verbatim>\<open>connection\<close> handler, unregister the \<^verbatim>\<open>disconnect\<close>
  handler, lookup the map \<^verbatim>\<open>connectedUsers\<close> that \<^verbatim>\<open>emitToUser\<close> and
  \<^verbatim>\<open>isUserOnline\<close> read. For an identity \<open>uid\<close> (a user id, which is not the empty
  string) and connections \<open>k1\<close>, \<open>k2\<close> of that identity: after \<open>k1\<close> and then \<open>k2\<close>
  connect, the lookup of \<open>uid\<close> is the id of \<open>k2\<close>; after a disconnect of a connection
  of \<open>uid\<close>, following either registration, the lookup is \<open>None\<close>; and the lookup of
  every other identity is what it was before, under any faults of the broker.
\<close>

theorem registry_last_writer_wins:
  assumes "uid \<noteq> []"
    and "socket_userId k1 = Some uid" and "socket_userId k2 = Some uid"
    and "socket_userId k = Some uid"
  shows "connectedUsers (connection_handler f2 (connection_handler f1 s k1) k2) uid = Some (socket_id k2)
       \<and> isUserOnline (connection_handler f2 (connection_handler f1 s k1) k2) uid
       \<and> connectedUsers (disconnect_handler f3 (connection_handler f2 (connection_handler f1 s k1) k2) k) uid = None
       \<and> connectedUsers (disconnect_handler f3 (connection_handler f1 s k1) k) uid = None
       \<and> \<not> isUserOnline (disconnect_handler f3 (connection_handler f2 (connection_handler f1 s k1) k2) k) uid
       \<and> (\<forall>other. other \<noteq> uid \<longrightarrow>
             connectedUsers (connection_handler f1 s k1) other = connectedUsers s other
           \<and> connectedUsers (connection_handler f2 (connection_handler f1 s k1) k2) other = connectedUsers s other
           \<and> connectedUsers (disconnect_handler f3 s k) other = connectedUsers s other)"
  using assms
  by (simp add: connectedUsers_connection_handler connectedUsers_disconnect_handler isUserOnline_def)

text \<open>
  Witness of C6: two connections of the first user, then a disconnect; the second
  user's entry is untouched.
\<close>

theorem registry_last_writer_wins_witness:
  "connectedUsers (connection_handler no_faults
       (connection_handler no_faults sample_store (alice_socket ''c1'')) (alice_socket ''c2''))
     alice_id = Some ''c2''
   \<and> connectedUsers (disconnect_handler no_faults
        (connection_handler no_faults
           (connection_handler no_faults sample_store (alice_socket ''c1'')) (alice_socket ''c2''))
        (alice_socket ''c1'')) alice_id = None
   \<and> connectedUsers (connection_handler no_faults sample_store (alice_socket ''c1'')) bob_id
        = connectedUsers sample_store bob_id"
  using registry_last_writer_wins [of "alice_id" "alice_socket ''c1''" "alice_socket ''c2''"
      "alice_socket ''c1''" no_faults no_faults sample_store no_faults]
  by (simp add: alice_socket_def)

lemma reachable_run: "reachable cfg s \<Longrightarrow> reachable cfg (run cfg s evs)"
proof (induction evs arbitrary: s)
  case Nil
  then show ?case by simp
next
  case (Cons a evs)
  obtain f ev where a: "a = (f, ev)" by (cases a)
  from Cons.prems have "reachable cfg (step cfg f s ev)" by (rule reachable_step)
  from Cons.IH [OF this] a show ?case by simp
qed


lemma reachable_chatting: "reachable sample_config chatting"
  unfolding chatting_def by (intro reachable_run reachable_initial initial_sample_store)





section \<open>The gate and the groups\<close>

lemma socket_middleware_Inr:
  assumes "socket_middleware cfg k0 = Inr k"
  shows "socket_id k = socket_id k0 \<and> handshake k = handshake k0
       \<and> (\<exists>token decoded.
             handshake_token (handshake k0) = Some token \<and> token \<noteq> []
           \<and> jwt_verify cfg token (JWT_SECRET cfg) = Inr decoded
           \<and> socket_userId k = Some (userId decoded)
           \<and> socket_username k = Some (username decoded))"
proof -
  let ?t = "handshake_token (handshake k0)"
  from assms have t: "truthy ?t"
    by (auto simp add: socket_middleware_def Let_def split: if_splits)
  then obtain token where ts: "?t = Some token" "token \<noteq> []"
    by (cases ?t) auto
  with assms obtain decoded where d: "jwt_verify cfg token (JWT_SECRET cfg) = Inr decoded"
    and k: "k = k0\<lparr>socket_userId := Some (userId decoded), socket_username := Some (username decoded)\<rparr>"
    by (auto simp add: socket_middleware_def Let_def split: sum.splits)
  from ts d k show ?thesis by simp
qed

lemma gate_invariant_initial: "initial s \<Longrightarrow> gate_invariant cfg s"
  by (simp add: initial_def gate_invariant_def)

lemma gate_invariant_step:
  assumes "gate_invariant cfg s"
  shows "gate_invariant cfg (step cfg f s ev)"
proof (cases ev)
  case (Connection sid h)
  show ?thesis
  proof (cases "io s \<and> sockets s sid = None")
    case False
    with Connection assms show ?thesis by auto
  next
    case True
    show ?thesis
    proof (cases "socket_middleware cfg (new_socket sid h)")
      case (Inl e)
      with Connection True assms show ?thesis by simp
    next
      case (Inr k)
      from socket_middleware_Inr [OF Inr]
      have k: "socket_id k = sid" "handshake k = h"
        by (simp_all add: new_socket_def)
      with Inr have "gate_validated cfg k"
        by (simp add: gate_validated_def)
      with Connection True Inr k assms show ?thesis
        by (auto simp add: gate_invariant_def)
    qed
  qed
next
  case (Join_room sid r)
  with assms show ?thesis
    by (auto simp add: gate_invariant_def split: option.splits)
next
  case (Leave_room sid r)
  with assms show ?thesis
    by (auto simp add: gate_invariant_def split: option.splits)
next
  case (Send_message sid d)
  with assms show ?thesis
    by (auto simp add: gate_invariant_def split: option.splits)
next
  case (Typing sid r b)
  with assms show ?thesis
    by (auto simp add: gate_invariant_def split: option.splits)
next
  case (Disconnect sid)
  with assms show ?thesis
    by (auto simp add: gate_invariant_def split: option.splits)
next
  case (Post_messages h b)
  with assms show ?thesis
    by (simp add: gate_invariant_def)
next
  case (Post_rooms_join h r)
  with assms show ?thesis
    by (simp add: gate_invariant_def)
qed

lemma reachable_gate_invariant: "reachable cfg s \<Longrightarrow> gate_invariant cfg s"
  by (induction rule: reachable.induct) (simp_all add: gate_invariant_initial gate_invariant_step)

text \<open>
  Claim C1, as stated, fails. The second user, whom the gate accepts, asks to join
  the private room of which only its owner is a member. No event of the run writes
  to the store, the store never lists the user as a member, and the connection is
  subscribed to the room's group.
\<close>

theorem subscribed_without_membership:
  "reachable sample_config (run sample_config sample_store bob_joins_team)
   \<and> ''c1'' \<in> adapter (run sample_config sample_store bob_joins_team) team
   \<and> sockets (run sample_config sample_store bob_joins_team) ''c1'' = Some (bob_socket ''c1'')
   \<and> rooms (run sample_config sample_store bob_joins_team) = rooms sample_store
   \<and> \<not> member_confirmed sample_store (bob_socket ''c1'') team
   \<and> \<not> member_confirmed (run sample_config sample_store bob_joins_team) (bob_socket ''c1'') team"
proof -
  have "reachable sample_config (run sample_config sample_store bob_joins_team)"
    by (intro reachable_run reachable_initial initial_sample_store)
  moreover have "\<not> member_confirmed sample_store (bob_socket ''c1'') team"
    by (simp add: member_confirmed_def rooms_team bob_socket_def)
  moreover have "\<not> member_confirmed (run sample_config sample_store bob_joins_team) (bob_socket ''c1'') team"
    by (simp add: member_confirmed_def bob_run_fields(3) rooms_team bob_socket_def)
  ultimately show ?thesis by (simp add: bob_run_fields)
qed

text \<open>
  Claim C1, amended. In every reachable state, a connection is subscribed to a group
  only if it is a live connection that the handshake middleware accepted: its
  handshake carried a token that \<^verbatim>\<open>jwt.verify\<close> accepted, and the connection carries
  the user id of that token. Membership is not consulted: the \<^verbatim>\<open>join_room\<close> event of
  a live connection subscribes it to the group of any room id.
\<close>

theorem subscribed_only_if_gate_validated:
  assumes "reachable cfg s"
  shows "(\<forall>sid roomId. sid \<in> adapter s roomId \<longrightarrow>
            (\<exists>k token decoded.
                sockets s sid = Some k \<and> socket_id k = sid \<and> gate_validated cfg k
              \<and> handshake_token (handshake k) = Some token
              \<and> jwt_verify cfg token (JWT_SECRET cfg) = Inr decoded
              \<and> socket_userId k = Some (userId decoded)))
       \<and> (\<forall>sid k roomId f. sockets s sid = Some k \<longrightarrow>
             sid \<in> adapter (step cfg f s (Join_room sid roomId)) roomId)"
proof (intro conjI allI impI)
  fix sid roomId
  assume "sid \<in> adapter s roomId"
  with reachable_gate_invariant [OF assms] obtain k where "sockets s sid = Some k"
    unfolding gate_invariant_def by blast
  with reachable_gate_invariant [OF assms]
  have k: "sockets s sid = Some k" "socket_id k = sid" "gate_validated cfg k"
    by (simp_all add: gate_invariant_def)
  from k(3) have "socket_middleware cfg (new_socket (socket_id k) (handshake k)) = Inr k"
    by (simp add: gate_validated_def)
  from socket_middleware_Inr [OF this] k
  show "\<exists>k token decoded.
                sockets s sid = Some k \<and> socket_id k = sid \<and> gate_validated cfg k
              \<and> handshake_token (handshake k) = Some token
              \<and> jwt_verify cfg token (JWT_SECRET cfg) = Inr decoded
              \<and> socket_userId k = Some (userId decoded)"
    by (auto simp add: new_socket_def)
next
  fix sid k roomId f
  assume "sockets s sid = Some k"
  with reachable_gate_invariant [OF assms] have "socket_id k = sid"
    by (simp add: gate_invariant_def)
  with \<open>sockets s sid = Some k\<close>
  show "sid \<in> adapter (step cfg f s (Join_room sid roomId)) roomId"
    by simp
qed

text \<open>
  Witness of the amended C1: the connection of the second user in the group of the
  private room was accepted by the gate, and its next \<^verbatim>\<open>join_room\<close> subscribes it to
  the public room as well.
\<close>

theorem subscribed_only_if_gate_validated_witness:
  "reachable sample_config (run sample_config sample_store bob_joins_team)
   \<and> ''c1'' \<in> adapter (run sample_config sample_store bob_joins_team) team
   \<and> gate_validated sample_config (bob_socket ''c1'')
   \<and> ''c1'' \<in> adapter (step sample_config no_faults (run sample_config sample_store bob_joins_team)
                          (Join_room ''c1'' general)) general"
proof -
  have r: "reachable sample_config (run sample_config sample_store bob_joins_team)"
    by (intro reachable_run reachable_initial initial_sample_store)
  from subscribed_only_if_gate_validated [OF r] bob_run_fields(1,2)
  have "gate_validated sample_config (bob_socket ''c1'')"
    and "''c1'' \<in> adapter (step sample_config no_faults (run sample_config sample_store bob_joins_team)
                          (Join_room ''c1'' general)) general"
    by auto
  with r bob_run_fields(2) show ?thesis by simp
qed

section \<open>Authentication\<close>

text \<open>
  The HTTP middleware, with a secret configured: a missing token, a token that
  \<^verbatim>\<open>jwt.verify\<close> rejects (malformed, bad signature, expired) and a token of a user
  that the store no longer holds are answered 401; a token of a stored user attaches
  that user to the request.
\<close>

lemma authenticateToken_rejects:
  assumes "truthy (JWT_SECRET cfg)"
  shows "(authHeader = None \<or> (\<exists>a. authHeader = Some a \<and> \<not> truthy (bearer a)) \<longrightarrow>
            authenticateToken cfg f s authHeader =
              Inl \<lparr>status = 401, success = False, message = ''Access token required''\<rparr>)
       \<and> (\<forall>a token e. authHeader = Some a \<and> bearer a = Some token \<and> token \<noteq> []
            \<and> jwt_verify cfg token (JWT_SECRET cfg) = Inl e \<longrightarrow>
            authenticateToken cfg f s authHeader =
              Inl \<lparr>status = 401, success = False, message = ''Invalid token''\<rparr>)
       \<and> (\<forall>a token decoded. authHeader = Some a \<and> bearer a = Some token \<and> token \<noteq> []
            \<and> jwt_verify cfg token (JWT_SECRET cfg) = Inr decoded
            \<and> find_throws f = None \<and> users s (userId decoded) = None \<longrightarrow>
            authenticateToken cfg f s authHeader =
              Inl \<lparr>status = 401, success = False, message = ''User not found''\<rparr>)
       \<and> (\<forall>a token decoded user. authHeader = Some a \<and> bearer a = Some token \<and> token \<noteq> []
            \<and> jwt_verify cfg token (JWT_SECRET cfg) = Inr decoded
            \<and> find_throws f = None \<and> users s (userId decoded) = Some user \<longrightarrow>
            authenticateToken cfg f s authHeader =
              Inr \<lparr>userId = user_id user, username = user_username user, email = user_email user\<rparr>)"
  using assms
  by (auto simp add: authenticateToken_def auth_catch_def User_findById_def bearer_def
        split: option.splits)

text \<open>
  The handshake: a missing token and a token that \<^verbatim>\<open>jwt.verify\<close> rejects are refused;
  an accepted token attaches its user id and name to the connection.
\<close>

lemma socket_middleware_rejects:
  "(\<not> truthy (handshake_token (handshake k)) \<longrightarrow>
      socket_middleware cfg k = Inl (Error ''Authentication token required''))
   \<and> (\<forall>token e. handshake_token (handshake k) = Some token \<and> token \<noteq> []
        \<and> jwt_verify cfg token (JWT_SECRET cfg) = Inl e \<longrightarrow>
      socket_middleware cfg k = Inl (Error ''Invalid authentication token''))
   \<and> (\<forall>token decoded. handshake_token (handshake k) = Some token \<and> token \<noteq> []
        \<and> jwt_verify cfg token (JWT_SECRET cfg) = Inr decoded \<longrightarrow>
      socket_middleware cfg k =
        Inr (k\<lparr>socket_userId := Some (userId decoded), socket_username := Some (username decoded)\<rparr>))"
  by (auto simp add: socket_middleware_def Let_def)

text \<open>
  Claim C3 on the code. The token of the deleted user verifies, and the store holds
  no user of its id. The handshake middleware accepts the connection, which is
  registered under that id; the HTTP middleware answers the same token with 401.
\<close>

theorem handshake_accepts_deleted_user:
  "users sample_store ghost_id = None
   \<and> socket_middleware sample_config (new_socket ''c9'' (token_handshake ''token-ghost''))
       = Inr (ghost_socket ''c9'')
   \<and> sockets (step sample_config no_faults sample_store
                (Connection ''c9'' (token_handshake ''token-ghost''))) ''c9''
       = Some (ghost_socket ''c9'')
   \<and> connectedUsers (step sample_config no_faults sample_store
                (Connection ''c9'' (token_handshake ''token-ghost''))) ghost_id = Some ''c9''
   \<and> authenticateToken sample_config no_faults sample_store (Some ''Bearer token-ghost'')
       = Inl \<lparr>status = 401, success = False, message = ''User not found''\<rparr>"
proof -
  have "authenticateToken sample_config no_faults sample_store (Some ''Bearer token-ghost'')
       = Inl \<lparr>status = 401, success = False, message = ''User not found''\<rparr>"
    by (simp add: authenticateToken_def bearer_def sample_config_def sample_verify_def
        User_findById_def ghost_def)
  then show ?thesis
    by (simp add: middleware_ghost connectedUsers_connection_handler ghost_socket_def)
qed

section \<open>The message send\<close>

lemma message_save_Inr:
  "message_save f s m = Inr s1 \<Longrightarrow>
     s1 = emit_effect (DbSaveMessage m) (s\<lparr>messages := messages s @ [m]\<rparr>)"
  by (simp add: message_save_def split: if_splits option.splits)

text \<open>The send after the room and the membership have been found.\<close>

lemma sendMessage_member:
  assumes "find_throws f = None" and "rooms s (dto_room md) = Some r" and "uid \<in> set (members r)"
  shows "sendMessage f s md uid =
     (case message_save f s (new_Message s md uid) of
        Inl e \<Rightarrow> (Inl e, s)
      | Inr s1 \<Rightarrow>
          (case populate_throws f of
             Some e \<Rightarrow> (Inl e, s1)
           | None \<Rightarrow>
               (Inr (new_Message s md uid),
                publishMessageToRabbitMQ f
                  (publishMessageToRedis f
                     (emitToRoom s1 (dto_room md) ''new_message'' (MessagePayload (new_Message s md uid)))
                     (new_Message s md uid))
                  (new_Message s md uid))))"
  using assms
  by (simp add: sendMessage_def Room_findById_def Let_def split: sum.splits option.splits)

text \<open>
  The three ways a send ends: an error with the state as it was, an error after the
  write (a \<^verbatim>\<open>populate\<close> that throws), or the message after the write, the broadcast
  and the two publish legs.
\<close>

lemma sendMessage_cases:
  "(\<exists>e. sendMessage f s md uid = (Inl e, s))
   \<or> (\<exists>e s1. message_save f s (new_Message s md uid) = Inr s1 \<and> sendMessage f s md uid = (Inl e, s1))
   \<or> (\<exists>s1 r. message_save f s (new_Message s md uid) = Inr s1 \<and> rooms s (dto_room md) = Some r \<and>
         sendMessage f s md uid =
           (Inr (new_Message s md uid),
            publishMessageToRabbitMQ f
              (publishMessageToRedis f
                 (emitToRoom s1 (dto_room md) ''new_message'' (MessagePayload (new_Message s md uid)))
                 (new_Message s md uid))
              (new_Message s md uid)))"
  by (simp add: sendMessage_def Room_findById_def Let_def split: option.splits sum.splits)

lemma trace_success:
  assumes "message_save f s m = Inr s1" and "rooms s (room m) = Some rm"
  shows "trace (publishMessageToRabbitMQ f
              (publishMessageToRedis f (emitToRoom s1 r ''new_message'' (MessagePayload m)) m) m) =
         trace s @ DbSaveMessage m #
           (if io s then [Emit (adapter s r) ''new_message'' (MessagePayload m)] else []) @
           (case publish_throws f of
              Some e \<Rightarrow> [ConsoleError ''Error publishing message to Redis:'']
            | None \<Rightarrow> [RedisPublish (''room:'' @ room m) (MessagePayload m)]) @
           (if users s (sender m) = None \<or> \<not> channel s
            then [ConsoleError ''Error publishing message to RabbitMQ:'']
            else (case sendToQueue_throws f ''message_processing'' of
                    Some e \<Rightarrow> [ConsoleError ''Error publishing message to RabbitMQ:'']
                  | None \<Rightarrow>
                      SendToQueue ''message_processing''
                        (MessageSentPayload (message_id m) (sender m) (room m) (content m)) #
                      (case sendToQueue_throws f ''message_logging'' of
                         Some e \<Rightarrow> [ConsoleError ''Error publishing message to RabbitMQ:'']
                       | None \<Rightarrow> [SendToQueue ''message_logging'' (MessagePayload m)])))"
  using message_save_Inr [OF assms(1)] assms(2)
  by (simp add: trace_publishMessageToRabbitMQ trace_publishMessageToRedis trace_emitToRoom)

lemma sendMessage_Inl_effects:
  assumes "sendMessage f s md uid = (Inl e, s')"
  shows "new_effects s s' = [] \<or> new_effects s s' = [DbSaveMessage (new_Message s md uid)]"
  using assms sendMessage_cases [of f s md uid]
  by (auto simp add: new_effects_def dest!: message_save_Inr)

lemma sendMessage_Inr_effects:
  assumes "sendMessage f s md uid = (Inr m, s')"
  shows "m = new_Message s md uid \<and> messages s' = messages s @ [m]
       \<and> new_effects s s' =
           DbSaveMessage m #
           (if io s then [Emit (adapter s (dto_room md)) ''new_message'' (MessagePayload m)] else []) @
           (case publish_throws f of
              Some e \<Rightarrow> [ConsoleError ''Error publishing message to Redis:'']
            | None \<Rightarrow> [RedisPublish (''room:'' @ room m) (MessagePayload m)]) @
           (if users s (sender m) = None \<or> \<not> channel s
            then [ConsoleError ''Error publishing message to RabbitMQ:'']
            else (case sendToQueue_throws f ''message_processing'' of
                    Some e \<Rightarrow> [ConsoleError ''Error publishing message to RabbitMQ:'']
                  | None \<Rightarrow>
                      SendToQueue ''message_processing''
                        (MessageSentPayload (message_id m) (sender m) (room m) (content m)) #
                      (case sendToQueue_throws f ''message_logging'' of
                         Some e \<Rightarrow> [ConsoleError ''Error publishing message to RabbitMQ:'']
                       | None \<Rightarrow> [SendToQueue ''message_logging'' (MessagePayload m)])))"
proof -
  from assms sendMessage_cases [of f s md uid] obtain s1 r
    where sv: "message_save f s (new_Message s md uid) = Inr s1"
      and r: "rooms s (dto_room md) = Some r"
      and m: "m = new_Message s md uid"
      and s': "s' = publishMessageToRabbitMQ f
              (publishMessageToRedis f
                 (emitToRoom s1 (dto_room md) ''new_message'' (MessagePayload (new_Message s md uid)))
                 (new_Message s md uid))
              (new_Message s md uid)"
    by auto
  have rm: "rooms s (room (new_Message s md uid)) = Some r"
    using r by (simp add: new_Message_def)
  have "messages s' = messages s @ [m]"
    using message_save_Inr [OF sv] by (simp add: s' m)
  moreover note trace_success [OF sv rm, of "dto_room md"]
  ultimately show ?thesis
    unfolding m s' by (simp only: new_effects_append simp_thms)
qed

lemma post_messages_success:
  assumes "authenticateToken cfg f s h = Inr user" and "sendMessageValidation cfg b = []"
    and "fst (sendMessage f s (sanitized b) (userId user)) = Inr m"
  shows "post_messages cfg f s h b =
     (\<lparr>status = 201, success = True, message = ''Message sent successfully''\<rparr>,
      snd (sendMessage f s (sanitized b) (userId user)))"
  using assms
  by (cases "sendMessage f s (sanitized b) (userId user)") (auto simp add: post_messages_def)

text \<open>The route: a body that fails a validator ends the request with 400.\<close>

lemma post_messages_rejects_invalid:
  assumes "authenticateToken cfg f s h = Inr user"
    and "length (or_empty (body_content b)) < 1 \<or> 2000 < length (or_empty (body_content b))
         \<or> (\<exists>t. body_messageType b = Some t \<and> t \<notin> {''text'', ''image'', ''file''})"
  shows "post_messages cfg f s h b =
           (\<lparr>status = 400, success = False, message = ''Validation failed''\<rparr>, s)"
  using assms
  by (auto simp add: post_messages_def sendMessageValidation_def)

text \<open>The service: a message that fails the schema is not saved and nothing is sent.\<close>

lemma sendMessage_rejects_invalid:
  assumes "\<not> messageSchema_valid (new_Message s md uid)"
  shows "\<exists>e. sendMessage f s md uid = (Inl e, s)"
  using assms
  by (simp add: sendMessage_def Room_findById_def message_save_def Let_def
        split: option.splits sum.splits)

subsection \<open>The sample sends\<close>

lemma rooms_chatting_general:
  "rooms chatting (dto_room hi_general) =
     Some \<lparr>name = ''general'', isPrivate = False, owner = alice_id,
           members = [alice_id, bob_id]\<rparr>"
  by (simp add: chatting_fields rooms_general hi_message_fields)

lemma sendMessage_hi:
  "sendMessage no_faults chatting hi_general alice_id =
     (Inr hi_message, snd (sendMessage no_faults chatting hi_general alice_id))"
proof -
  have "fst (sendMessage no_faults chatting hi_general alice_id) = Inr hi_message"
    using rooms_chatting_general
    by (simp add: sendMessage_member new_Message_hi chatting_fields save_hi)
  then show ?thesis by (metis prod.collapse)
qed

lemma socket_send_hi:
  "new_effects chatting (send_message no_faults chatting (alice_socket ''c1'') hi_data) =
     [SendToQueue ''message_processing'' (QueuePayload general ''hi'' ''text'' (Some alice_id)),
      Emit {''c2''} ''new_message''
        (ChatPayload general ''hi'' ''text'' (Some alice_id) (Some ''alice''))]"
  by (simp add: chatting_fields trace_send_message new_effects_def hi_data_def
        messageType_or_text_def alice_socket_def)

lemma http_send_hi:
  "new_effects chatting (snd (sendMessage no_faults chatting hi_general alice_id)) =
     [DbSaveMessage hi_message,
      Emit {''c1'', ''c2''} ''new_message'' (MessagePayload hi_message),
      RedisPublish (''room:'' @ general) (MessagePayload hi_message),
      SendToQueue ''message_processing'' (MessageSentPayload 0 alice_id general ''hi''),
      SendToQueue ''message_logging'' (MessagePayload hi_message)]"
proof -
  have sv: "message_save no_faults chatting hi_message =
      Inr (emit_effect (DbSaveMessage hi_message) (chatting\<lparr>messages := messages chatting @ [hi_message]\<rparr>))"
    by (simp add: save_hi)
  have rm: "rooms chatting (room hi_message) =
     Some \<lparr>name = ''general'', isPrivate = False, owner = alice_id,
           members = [alice_id, bob_id]\<rparr>"
    by (simp add: chatting_fields rooms_general hi_message_fields)
  have eq: "sendMessage no_faults chatting hi_general alice_id =
      (Inr hi_message,
       publishMessageToRabbitMQ no_faults
         (publishMessageToRedis no_faults
            (emitToRoom (emit_effect (DbSaveMessage hi_message) (chatting\<lparr>messages := messages chatting @ [hi_message]\<rparr>))
               general ''new_message'' (MessagePayload hi_message)) hi_message) hi_message)"
    using rooms_chatting_general
    by (simp add: sendMessage_member new_Message_hi chatting_fields save_hi hi_message_fields)
  show ?thesis
    unfolding eq snd_conv
    using trace_success [OF sv rm, of general]
    by (intro new_effects_append) (simp add: chatting_fields hi_message_fields)
qed

lemma post_hi:
  "post_messages sample_config no_faults chatting (Some ''Bearer token-alice'') hi_body =
     (\<lparr>status = 201, success = True, message = ''Message sent successfully''\<rparr>,
      snd (sendMessage no_faults chatting hi_general alice_id))"
proof -
  have v: "sendMessageValidation sample_config hi_body = []"
    by (simp add: sendMessageValidation_def hi_body_def or_empty_def sample_config_def
          sample_isMongoId_def general_def)
  have sn: "sanitized hi_body = hi_general"
    by (simp add: sanitized_def hi_body_def hi_general_def or_empty_def trim_def is_space_def)
  have u: "userId alice = alice_id" by (simp add: alice_def)
  have "fst (sendMessage no_faults chatting hi_general alice_id) = Inr hi_message"
    using sendMessage_hi by (metis fst_conv)
  then show ?thesis
    using post_messages_success [of sample_config no_faults chatting "Some ''Bearer token-alice''"
        alice hi_body hi_message]
    by (simp add: authenticate_alice chatting_fields v sn u)
qed

subsection \<open>Room and membership\<close>

text \<open>
  Claim C10. When the lookup of the room returns: if the store holds no room of the
  id, \<^verbatim>\<open>sendMessage\<close> throws \<^verbatim>\<open>Room not found\<close>; if it holds one and the sender is not
  among its members, it throws \<^verbatim>\<open>User is not a member of this room\<close>. Either way the
  state after is the state before: no message is saved, and the trace gains no
  broadcast and no publish.
\<close>

theorem sendMessage_room_or_membership_missing:
  assumes "find_throws f = None"
  shows "(rooms s (dto_room md) = None \<longrightarrow>
            sendMessage f s md uid = (Inl (Error ''Room not found''), s))
       \<and> (\<forall>r. rooms s (dto_room md) = Some r \<and> uid \<notin> set (members r) \<longrightarrow>
            sendMessage f s md uid = (Inl (Error ''User is not a member of this room''), s))"
  using assms by (simp add: sendMessage_def Room_findById_def)

text \<open>
  Witness of C10: a room id that the sample store does not hold, and the second user
  sending to the private room.
\<close>

theorem sendMessage_room_or_membership_missing_witness:
  "sendMessage no_faults sample_store
      \<lparr>dto_content = ''hi'', dto_room = ''5f00000000000000000000ff'', dto_messageType = None\<rparr> bob_id
     = (Inl (Error ''Room not found''), sample_store)
   \<and> sendMessage no_faults sample_store
      \<lparr>dto_content = ''hi'', dto_room = team, dto_messageType = None\<rparr> bob_id
     = (Inl (Error ''User is not a member of this room''), sample_store)"
proof -
  have f: "find_throws no_faults = None" by simp
  from sendMessage_room_or_membership_missing [OF f, of sample_store
      "\<lparr>dto_content = ''hi'', dto_room = ''5f00000000000000000000ff'', dto_messageType = None\<rparr>" "bob_id"]
    rooms_unknown
    sendMessage_room_or_membership_missing [OF f, of sample_store
      "\<lparr>dto_content = ''hi'', dto_room = team, dto_messageType = None\<rparr>" "bob_id"] rooms_team
  show ?thesis by simp
qed

subsection \<open>Publish failures\<close>

text \<open>
  Claim C9. When the room and the membership are found, the message is saved and the
  \<^verbatim>\<open>populate\<close> calls return, then under any faults of the pub/sub publish and of the
  two queue publishes \<^verbatim>\<open>sendMessage\<close> returns the saved message, the message is in the
  store, the broadcast to the room's group is in the trace (the socket server being
  up), and each publish leg that fails leaves its log line and nothing else.
\<close>

theorem publish_failures_are_swallowed:
  assumes "find_throws f = None" and "rooms s (dto_room md) = Some r" and "uid \<in> set (members r)"
    and "message_save f s (new_Message s md uid) = Inr s1"
    and "populate_throws f = None"
  shows "fst (sendMessage f s md uid) = Inr (new_Message s md uid)
       \<and> new_Message s md uid \<in> set (messages (snd (sendMessage f s md uid)))
       \<and> (io s \<longrightarrow>
            Emit (adapter s (dto_room md)) ''new_message'' (MessagePayload (new_Message s md uid))
              \<in> set (new_effects s (snd (sendMessage f s md uid))))
       \<and> (publish_throws f \<noteq> None \<longrightarrow>
            ConsoleError ''Error publishing message to Redis:''
              \<in> set (new_effects s (snd (sendMessage f s md uid))))
       \<and> (\<not> channel s \<or> sendToQueue_throws f ''message_processing'' \<noteq> None
            \<or> sendToQueue_throws f ''message_logging'' \<noteq> None \<longrightarrow>
            ConsoleError ''Error publishing message to RabbitMQ:''
              \<in> set (new_effects s (snd (sendMessage f s md uid))))"
proof -
  let ?m = "new_Message s md uid"
  let ?s' = "publishMessageToRabbitMQ f
               (publishMessageToRedis f
                  (emitToRoom s1 (dto_room md) ''new_message'' (MessagePayload ?m)) ?m) ?m"
  have eq: "sendMessage f s md uid = (Inr ?m, ?s')"
    using assms by (simp add: sendMessage_member)
  have msgs: "messages ?s' = messages s @ [?m]"
    using message_save_Inr [OF assms(4)] by simp
  have rm: "rooms s (room ?m) = Some r"
    using assms(2) by (simp add: new_Message_def)
  note tr = trace_success [OF assms(4) rm, of "dto_room md"]
  show ?thesis
    unfolding eq fst_conv snd_conv new_effects_append [OF tr]
    using msgs by (auto split: option.splits)
qed

text \<open>
  Witness of C9: the first user sends to the public room while the pub/sub broker
  and the queue broker both fail.
\<close>

theorem publish_failures_are_swallowed_witness:
  "fst (sendMessage brokers_down chatting hi_general alice_id) = Inr hi_message
   \<and> publish_throws brokers_down \<noteq> None
   \<and> sendToQueue_throws brokers_down ''message_processing'' \<noteq> None
   \<and> Emit {''c1'', ''c2''} ''new_message'' (MessagePayload hi_message)
        \<in> set (new_effects chatting (snd (sendMessage brokers_down chatting hi_general alice_id)))
   \<and> ConsoleError ''Error publishing message to Redis:''
        \<in> set (new_effects chatting (snd (sendMessage brokers_down chatting hi_general alice_id)))
   \<and> ConsoleError ''Error publishing message to RabbitMQ:''
        \<in> set (new_effects chatting (snd (sendMessage brokers_down chatting hi_general alice_id)))"
proof -
  have m: "new_Message chatting hi_general alice_id = hi_message"
    by (simp add: new_Message_hi chatting_fields)
  have sv: "message_save brokers_down chatting (new_Message chatting hi_general alice_id) =
      Inr (emit_effect (DbSaveMessage hi_message) (chatting\<lparr>messages := messages chatting @ [hi_message]\<rparr>))"
    by (simp add: m save_hi)
  from publish_failures_are_swallowed [OF brokers_down_fields(1) rooms_chatting_general _ sv
      brokers_down_fields(3)]
  show ?thesis
    by (simp add: m chatting_fields hi_message_fields)
qed

subsection \<open>The write and the broadcast\<close>

text \<open>
  Claim C5, as stated, fails on the real-time path. The \<^verbatim>\<open>send_message\<close> event of
  the first user's connection publishes to the queue and broadcasts \<^verbatim>\<open>new_message\<close>
  to the room, and the store holds no message before or after: the broadcast is not
  preceded by any write.
\<close>

theorem socket_send_broadcasts_unpersisted:
  "messages chatting = []
   \<and> new_effects chatting (step sample_config no_faults chatting (Send_message ''c1'' hi_data)) =
       [SendToQueue ''message_processing'' (QueuePayload general ''hi'' ''text'' (Some alice_id)),
        Emit {''c2''} ''new_message''
          (ChatPayload general ''hi'' ''text'' (Some alice_id) (Some ''alice''))]
   \<and> messages (step sample_config no_faults chatting (Send_message ''c1'' hi_data)) = []"
  using socket_send_hi by (simp add: chatting_fields)

text \<open>
  Claim C5, amended. On the HTTP path (\<^verbatim>\<open>MessageService.sendMessage\<close>): a send that
  throws has added no broadcast and no publish; when the save fails, the send throws
  the error of the save and the state is as before; a send that returns has written
  the message first, before every other effect, and writes nothing else. The
  real-time \<^verbatim>\<open>send_message\<close> event writes nothing to the store: it publishes to the
  \<^verbatim>\<open>message_processing\<close> queue and then broadcasts, and when the queue publish fails
  it logs, emits \<^verbatim>\<open>error\<close> to the sender and broadcasts nothing.
\<close>

theorem persist_before_broadcast:
  "(\<forall>e s'. sendMessage f s md uid = (Inl e, s') \<longrightarrow>
       filter (\<lambda>x. is_new_message x \<or> is_publish x) (new_effects s s') = [])
   \<and> (\<forall>r e. find_throws f = None \<and> rooms s (dto_room md) = Some r \<and> uid \<in> set (members r)
            \<and> message_save f s (new_Message s md uid) = Inl e \<longrightarrow>
          sendMessage f s md uid = (Inl e, s))
   \<and> (\<forall>m s'. sendMessage f s md uid = (Inr m, s') \<longrightarrow>
          m \<in> set (messages s')
        \<and> (\<exists>rest. new_effects s s' = DbSaveMessage m # rest \<and> filter is_write rest = []))
   \<and> messages (send_message f s k d) = messages s
   \<and> filter is_write (new_effects s (send_message f s k d)) = []
   \<and> (channel s \<and> sendToQueue_throws f ''message_processing'' = None \<longrightarrow>
        new_effects s (send_message f s k d) =
          [SendToQueue ''message_processing''
             (QueuePayload (data_roomId d) (data_content d)
                (messageType_or_text (data_messageType d)) (socket_userId k)),
           Emit (adapter s (data_roomId d) - adapter s (socket_id k)) ''new_message''
             (ChatPayload (data_roomId d) (data_content d)
                (messageType_or_text (data_messageType d))
                (socket_userId k) (socket_username k))])
   \<and> (\<not> (channel s \<and> sendToQueue_throws f ''message_processing'' = None) \<longrightarrow>
        new_effects s (send_message f s k d) =
          [ConsoleError ''Error handling send_message:'',
           Emit {socket_id k} ''error'' (ErrorPayload ''Failed to send message'')])"
proof (intro conjI allI impI)
  fix e s'
  assume "sendMessage f s md uid = (Inl e, s')"
  from sendMessage_Inl_effects [OF this]
  show "filter (\<lambda>x. is_new_message x \<or> is_publish x) (new_effects s s') = []"
    by auto
next
  fix r e
  assume "find_throws f = None \<and> rooms s (dto_room md) = Some r \<and> uid \<in> set (members r)
            \<and> message_save f s (new_Message s md uid) = Inl e"
  then show "sendMessage f s md uid = (Inl e, s)"
    by (simp add: sendMessage_member)
next
  fix m s'
  assume a: "sendMessage f s md uid = (Inr m, s')"
  from sendMessage_Inr_effects [OF a] show "m \<in> set (messages s')"
    by simp
  from sendMessage_Inr_effects [OF a]
  show "\<exists>rest. new_effects s s' = DbSaveMessage m # rest \<and> filter is_write rest = []"
    by (auto split: option.splits)
next
  show "messages (send_message f s k d) = messages s"
    by simp
  show "filter is_write (new_effects s (send_message f s k d)) = []"
    by (simp add: trace_send_message new_effects_def)
next
  assume "channel s \<and> sendToQueue_throws f ''message_processing'' = None"
  then show "new_effects s (send_message f s k d) =
          [SendToQueue ''message_processing''
             (QueuePayload (data_roomId d) (data_content d)
                (messageType_or_text (data_messageType d)) (socket_userId k)),
           Emit (adapter s (data_roomId d) - adapter s (socket_id k)) ''new_message''
             (ChatPayload (data_roomId d) (data_content d)
                (messageType_or_text (data_messageType d))
                (socket_userId k) (socket_username k))]"
    by (simp add: trace_send_message new_effects_def)
next
  assume "\<not> (channel s \<and> sendToQueue_throws f ''message_processing'' = None)"
  then show "new_effects s (send_message f s k d) =
          [ConsoleError ''Error handling send_message:'',
           Emit {socket_id k} ''error'' (ErrorPayload ''Failed to send message'')]"
    by (simp add: trace_send_message new_effects_def)
qed

text \<open>
  Witness of the amended C5: a save that the store rejects, a send that returns, and
  the real-time send with the queue up and with the queue down.
\<close>

theorem persist_before_broadcast_witness:
  "sendMessage store_rejects chatting hi_general alice_id = (Inl MongoError, chatting)
   \<and> filter (\<lambda>x. is_new_message x \<or> is_publish x) (new_effects chatting chatting) = []
   \<and> sendMessage no_faults chatting hi_general alice_id =
        (Inr hi_message, snd (sendMessage no_faults chatting hi_general alice_id))
   \<and> hi_message \<in> set (messages (snd (sendMessage no_faults chatting hi_general alice_id)))
   \<and> new_effects chatting (send_message no_faults chatting (alice_socket ''c1'') hi_data) =
        [SendToQueue ''message_processing'' (QueuePayload general ''hi'' ''text'' (Some alice_id)),
         Emit {''c2''} ''new_message''
           (ChatPayload general ''hi'' ''text'' (Some alice_id) (Some ''alice''))]
   \<and> new_effects chatting (send_message brokers_down chatting (alice_socket ''c1'') hi_data) =
        [ConsoleError ''Error handling send_message:'',
         Emit {''c1''} ''error'' (ErrorPayload ''Failed to send message'')]"
proof -
  have m: "new_Message chatting hi_general alice_id = hi_message"
    by (simp add: new_Message_hi chatting_fields)
  note a = persist_before_broadcast [of store_rejects chatting hi_general "alice_id"
      "alice_socket ''c1''" hi_data]
  note b = persist_before_broadcast [of no_faults chatting hi_general "alice_id"
      "alice_socket ''c1''" hi_data]
  note c = persist_before_broadcast [of brokers_down chatting hi_general "alice_id"
      "alice_socket ''c1''" hi_data]
  have 1: "sendMessage store_rejects chatting hi_general alice_id = (Inl MongoError, chatting)"
    using a rooms_chatting_general by (simp add: m save_hi_rejected)
  with a have 2: "filter (\<lambda>x. is_new_message x \<or> is_publish x) (new_effects chatting chatting) = []"
    by blast
  note 3 = sendMessage_hi
  with b have 4: "hi_message \<in> set (messages (snd (sendMessage no_faults chatting hi_general alice_id)))"
    by blast
  have 5: "new_effects chatting (send_message no_faults chatting (alice_socket ''c1'') hi_data) =
        [SendToQueue ''message_processing'' (QueuePayload general ''hi'' ''text'' (Some alice_id)),
         Emit {''c2''} ''new_message''
           (ChatPayload general ''hi'' ''text'' (Some alice_id) (Some ''alice''))]"
    using b by (simp add: chatting_fields hi_data_def messageType_or_text_def alice_socket_def)
  have 6: "new_effects chatting (send_message brokers_down chatting (alice_socket ''c1'') hi_data) =
        [ConsoleError ''Error handling send_message:'',
         Emit {''c1''} ''error'' (ErrorPayload ''Failed to send message'')]"
    using c by (simp add: alice_socket_def)
  from 1 2 3 4 5 6 show ?thesis by blast
qed

subsection \<open>The recipients of the broadcast\<close>

text \<open>
  Claim C2, as stated, fails on the HTTP path. The first user, whose connection
  \<open>c1\<close> is subscribed to the public room, posts a message to that room. The request
  succeeds, and the one \<^verbatim>\<open>new_message\<close> broadcast is delivered to both connections
  of the group: the sender's own connection receives a copy.
\<close>

theorem http_send_echoes_to_sender:
  "fst (post_messages sample_config no_faults chatting (Some ''Bearer token-alice'') hi_body) =
     \<lparr>status = 201, success = True, message = ''Message sent successfully''\<rparr>
   \<and> filter is_new_message
       (new_effects chatting
          (snd (post_messages sample_config no_faults chatting (Some ''Bearer token-alice'') hi_body))) =
       [Emit {''c1'', ''c2''} ''new_message'' (MessagePayload hi_message)]
   \<and> sender hi_message = alice_id
   \<and> sockets chatting ''c1'' = Some (alice_socket ''c1'')
   \<and> socket_userId (alice_socket ''c1'') = Some alice_id
   \<and> connectedUsers chatting alice_id = Some ''c1''"
  by (simp add: post_hi http_send_hi chatting_fields alice_socket_def hi_message_fields)

text \<open>
  The real-time path echoes as well once the sending connection has left the group
  of its own id: the exception of \<^verbatim>\<open>socket.to\<close> is then empty, and the broadcast
  reaches the sender.
\<close>

lemma left_own_fields:
  "sockets left_own ''c1'' = Some (alice_socket ''c1'')"
  "adapter left_own ''c1'' = {}"
  "adapter left_own general = {''c1'', ''c2''}"
  "channel left_own"
proof -
  have g: "general \<noteq> ''c1''" by (simp add: general_def)
  show "sockets left_own ''c1'' = Some (alice_socket ''c1'')"
    by (simp add: left_own_def chatting_fields)
  show "adapter left_own ''c1'' = {}"
    by (simp add: left_own_def chatting_fields alice_socket_def)
  show "adapter left_own general = {''c1'', ''c2''}"
    using g by (simp add: left_own_def chatting_fields alice_socket_def)
  show "channel left_own"
    by (simp add: left_own_def chatting_fields)
qed

lemma reachable_left_own: "reachable sample_config left_own"
  unfolding left_own_def by (intro reachable_run reachable_chatting)

lemma socket_send_echoes_after_leaving_own_group:
  "reachable sample_config left_own
   \<and> sockets left_own ''c1'' = Some (alice_socket ''c1'')
   \<and> adapter left_own ''c1'' = {}
   \<and> new_effects left_own (step sample_config no_faults left_own (Send_message ''c1'' hi_data)) =
       [SendToQueue ''message_processing'' (QueuePayload general ''hi'' ''text'' (Some alice_id)),
        Emit {''c1'', ''c2''} ''new_message''
          (ChatPayload general ''hi'' ''text'' (Some alice_id) (Some ''alice''))]"
  using reachable_left_own
  by (simp add: left_own_fields trace_send_message new_effects_def hi_data_def
        messageType_or_text_def alice_socket_def)

text \<open>The handshake that the gate accepts puts the connection in the group of its id.\<close>

lemma own_group_after_connection:
  assumes "io s" and "sockets s sid = None"
    and "socket_middleware cfg (new_socket sid h) = Inr k"
  shows "sid \<in> adapter (step cfg f s (Connection sid h)) sid"
  using assms by simp

text \<open>
  Claim C2, amended. On the real-time path, every \<^verbatim>\<open>new_message\<close> that the
  \<^verbatim>\<open>send_message\<close> handler emits goes to the room's group less the members of the
  group named by the sending connection's id; so it does not reach the sending
  connection as long as that connection is in the group of its own id; and a send
  that succeeds emits exactly one. On the HTTP path, a send that succeeds emits
  exactly one \<^verbatim>\<open>new_message\<close>, to the whole group of the room with no connection
  excluded (none when the socket server is not up).
\<close>

theorem new_message_recipients:
  "(\<forall>e \<in> set (new_effects s (send_message f s k d)). is_new_message e \<longrightarrow>
       recipients e = adapter s (data_roomId d) - adapter s (socket_id k))
   \<and> (socket_id k \<in> adapter s (socket_id k) \<longrightarrow>
        (\<forall>e \<in> set (new_effects s (send_message f s k d)). is_new_message e \<longrightarrow>
            socket_id k \<notin> recipients e))
   \<and> (channel s \<and> sendToQueue_throws f ''message_processing'' = None \<longrightarrow>
        filter is_new_message (new_effects s (send_message f s k d)) =
          [Emit (adapter s (data_roomId d) - adapter s (socket_id k)) ''new_message''
             (ChatPayload (data_roomId d) (data_content d)
                (messageType_or_text (data_messageType d))
                (socket_userId k) (socket_username k))])
   \<and> (\<forall>m s'. sendMessage g s md uid = (Inr m, s') \<longrightarrow>
          filter is_new_message (new_effects s s') =
            (if io s then [Emit (adapter s (dto_room md)) ''new_message'' (MessagePayload m)]
             else []))"
proof (intro conjI allI impI ballI)
  fix e
  assume "e \<in> set (new_effects s (send_message f s k d))" and "is_new_message e"
  then show "recipients e = adapter s (data_roomId d) - adapter s (socket_id k)"
    by (auto simp add: trace_send_message new_effects_def split: if_splits)
next
  fix e
  assume "socket_id k \<in> adapter s (socket_id k)"
    and "e \<in> set (new_effects s (send_message f s k d))" and "is_new_message e"
  then show "socket_id k \<notin> recipients e"
    by (auto simp add: trace_send_message new_effects_def split: if_splits)
next
  assume "channel s \<and> sendToQueue_throws f ''message_processing'' = None"
  then show "filter is_new_message (new_effects s (send_message f s k d)) =
          [Emit (adapter s (data_roomId d) - adapter s (socket_id k)) ''new_message''
             (ChatPayload (data_roomId d) (data_content d)
                (messageType_or_text (data_messageType d))
                (socket_userId k) (socket_username k))]"
    by (simp add: trace_send_message new_effects_def)
next
  fix m s'
  assume a: "sendMessage g s md uid = (Inr m, s')"
  from sendMessage_Inr_effects [OF a]
  show "filter is_new_message (new_effects s s') =
            (if io s then [Emit (adapter s (dto_room md)) ''new_message'' (MessagePayload m)]
             else [])"
    by (auto split: option.splits)
qed

text \<open>
  Witness of the amended C2: the first user's connection is in the group of its own
  id; the user sends by the socket, and the second user's connection alone receives;
  the user sends by HTTP, and both receive.
\<close>

theorem new_message_recipients_witness:
  "socket_id (alice_socket ''c1'') \<in> adapter chatting (socket_id (alice_socket ''c1''))
   \<and> channel chatting
   \<and> sendToQueue_throws no_faults ''message_processing'' = None
   \<and> filter is_new_message
       (new_effects chatting (send_message no_faults chatting (alice_socket ''c1'') hi_data)) =
      [Emit {''c2''} ''new_message''
         (ChatPayload general ''hi'' ''text'' (Some alice_id) (Some ''alice''))]
   \<and> socket_id (alice_socket ''c1'') \<notin> {''c2''}
   \<and> sendMessage no_faults chatting hi_general alice_id =
        (Inr hi_message, snd (sendMessage no_faults chatting hi_general alice_id))
   \<and> filter is_new_message
        (new_effects chatting (snd (sendMessage no_faults chatting hi_general alice_id))) =
       [Emit {''c1'', ''c2''} ''new_message'' (MessagePayload hi_message)]"
proof -
  note b = new_message_recipients [of chatting no_faults "alice_socket ''c1''" hi_data no_faults
      hi_general "alice_id"]
  have 0: "socket_id (alice_socket ''c1'') \<in> adapter chatting (socket_id (alice_socket ''c1''))"
    by (simp add: chatting_fields alice_socket_def)
  have 1: "filter is_new_message
      (new_effects chatting (send_message no_faults chatting (alice_socket ''c1'') hi_data)) =
     [Emit {''c2''} ''new_message''
        (ChatPayload general ''hi'' ''text'' (Some alice_id) (Some ''alice''))]"
    using b by (simp add: chatting_fields hi_data_def messageType_or_text_def alice_socket_def)
  from b sendMessage_hi have "filter is_new_message
        (new_effects chatting (snd (sendMessage no_faults chatting hi_general alice_id))) =
       (if io chatting
        then [Emit (adapter chatting (dto_room hi_general)) ''new_message'' (MessagePayload hi_message)]
        else [])"
    by blast
  then have 2: "filter is_new_message
        (new_effects chatting (snd (sendMessage no_faults chatting hi_general alice_id))) =
       [Emit {''c1'', ''c2''} ''new_message'' (MessagePayload hi_message)]"
    by (simp add: chatting_fields hi_message_fields)
  from 0 1 2 sendMessage_hi show ?thesis by (simp add: alice_socket_def chatting_fields)
qed

subsection \<open>Validation\<close>

text \<open>
  Claim C4 on the code. The first user's connection sends 2001 characters with a
  message type outside the enumeration by the \<^verbatim>\<open>send_message\<close> event: the handler
  publishes the task and broadcasts the content to the room. The same content posted
  over HTTP is answered 400 and changes nothing.
\<close>

theorem socket_send_skips_validation:
  "length (data_content long_data) = 2001
   \<and> data_messageType long_data = Some ''video''
   \<and> new_effects chatting (step sample_config no_faults chatting (Send_message ''c1'' long_data)) =
       [SendToQueue ''message_processing''
          (QueuePayload general (replicate 2001 (CHR ''a'')) ''video'' (Some alice_id)),
        Emit {''c2''} ''new_message''
          (ChatPayload general (replicate 2001 (CHR ''a'')) ''video'' (Some alice_id) (Some ''alice''))]
   \<and> post_messages sample_config no_faults chatting (Some ''Bearer token-alice'') long_body =
       (\<lparr>status = 400, success = False, message = ''Validation failed''\<rparr>, chatting)"
proof -
  have "post_messages sample_config no_faults chatting (Some ''Bearer token-alice'') long_body =
       (\<lparr>status = 400, success = False, message = ''Validation failed''\<rparr>, chatting)"
    by (rule post_messages_rejects_invalid [where user = alice])
       (simp_all add: authenticate_alice chatting_fields long_body_def or_empty_def)
  then show ?thesis
    by (simp add: chatting_fields trace_send_message new_effects_def long_data_def
        messageType_or_text_def alice_socket_def)
qed

section \<open>The room join\<close>

text \<open>
  Claim C8, as stated, fails. The second user, who is not a member of the private
  room, joins it: the user is appended to the members, the room is saved and
  returned.
\<close>

theorem private_room_joined_by_non_member:
  "rooms sample_store team =
     Some \<lparr>name = ''Private Team'', isPrivate = True, owner = alice_id, members = [alice_id]\<rparr>
   \<and> fst (joinRoom no_faults sample_store team bob_id) =
       Inr \<lparr>name = ''Private Team'', isPrivate = True, owner = alice_id,
            members = [alice_id, bob_id]\<rparr>
   \<and> rooms (snd (joinRoom no_faults sample_store team bob_id)) team =
       Some \<lparr>name = ''Private Team'', isPrivate = True, owner = alice_id,
             members = [alice_id, bob_id]\<rparr>"
  using rooms_team
  by (simp add: joinRoom_def Room_findById_def room_save_def room_pre_save_def Let_def)

text \<open>
  Claim C8, amended. When the lookup of the room returns: the join fails if the store
  holds no room of the id, and fails if the caller is already a member; otherwise,
  whether the room is private or not, when the save and the \<^verbatim>\<open>populate\<close> calls return
  the user is appended to the members, the room so changed is what the store holds
  and what is returned, and it lists the user. (The save hook appends the owner as
  well when the owner was missing from the members.)
\<close>

theorem joinRoom_contract:
  assumes "find_throws f = None"
  shows "(rooms s roomId = None \<longrightarrow>
            joinRoom f s roomId uid = (Inl (Error ''Room not found''), s))
       \<and> (\<forall>r. rooms s roomId = Some r \<and> uid \<in> set (members r) \<longrightarrow>
            joinRoom f s roomId uid = (Inl (Error ''User is already a member of this room''), s))
       \<and> (\<forall>r. rooms s roomId = Some r \<and> uid \<notin> set (members r)
              \<and> save_throws f = None \<and> populate_throws f = None \<longrightarrow>
            fst (joinRoom f s roomId uid) = Inr (room_pre_save (r\<lparr>members := members r @ [uid]\<rparr>))
          \<and> rooms (snd (joinRoom f s roomId uid)) =
              (rooms s)(roomId \<mapsto> room_pre_save (r\<lparr>members := members r @ [uid]\<rparr>))
          \<and> uid \<in> set (members (room_pre_save (r\<lparr>members := members r @ [uid]\<rparr>)))
          \<and> isPrivate (room_pre_save (r\<lparr>members := members r @ [uid]\<rparr>)) = isPrivate r
          \<and> (owner r \<in> set (members r) \<longrightarrow>
               room_pre_save (r\<lparr>members := members r @ [uid]\<rparr>) = r\<lparr>members := members r @ [uid]\<rparr>))"
  using assms
  by (auto simp add: joinRoom_def Room_findById_def room_save_def room_pre_save_def Let_def)

text \<open>
  Witness of the amended C8: a room id that the store does not hold, a user who is a
  member already, and the second user joining the private room.
\<close>

theorem joinRoom_contract_witness:
  "joinRoom no_faults sample_store ''5f00000000000000000000ff'' bob_id
     = (Inl (Error ''Room not found''), sample_store)
   \<and> joinRoom no_faults sample_store general bob_id
     = (Inl (Error ''User is already a member of this room''), sample_store)
   \<and> fst (joinRoom no_faults sample_store team bob_id) =
       Inr \<lparr>name = ''Private Team'', isPrivate = True, owner = alice_id,
            members = [alice_id, bob_id]\<rparr>"
proof -
  have f: "find_throws no_faults = None" by simp
  from joinRoom_contract [OF f, of sample_store "''5f00000000000000000000ff''" "bob_id"]
    rooms_unknown
  have 1: "joinRoom no_faults sample_store ''5f00000000000000000000ff'' bob_id
     = (Inl (Error ''Room not found''), sample_store)"
    by simp
  from joinRoom_contract [OF f, of sample_store general "bob_id"] rooms_general
  have 2: "joinRoom no_faults sample_store general bob_id
     = (Inl (Error ''User is already a member of this room''), sample_store)"
    by simp
  from joinRoom_contract [OF f, of sample_store team "bob_id"] rooms_team
  have 3: "fst (joinRoom no_faults sample_store team bob_id) =
       Inr \<lparr>name = ''Private Team'', isPrivate = True, owner = alice_id,
            members = [alice_id, bob_id]\<rparr>"
    by (simp add: room_pre_save_def)
  from 1 2 3 show ?thesis by simp
qed

end
